theory Spec2Isabelle
  imports Complex_Main
begin

section \<open>Conventions\<close>

text \<open>
  The development embeds three modules of the backend: \<^verbatim>\<open>db/vector_store.py\<close>,
  \<^verbatim>\<open>services/query_engine.py\<close> and \<^verbatim>\<open>services/document_processor.py\<close>
  (with the two storage calls of \<^verbatim>\<open>db/firebase.py\<close> they use).

  \<^item> A raised Python exception is the value \<open>Inl e\<close> of a sum type, \<open>e\<close> being the
    message \<^verbatim>\<open>str(e)\<close>; a normal return is \<open>Inr v\<close>.
  \<^item> A method that mutates its object or talks to an external service takes the state
    and returns the pair of its result and the new state.
  \<^item> What an external service answers (the vector database, the LLM provider, the
    embedding model, the file parsers) is a field of an environment record: the code is
    verified for every environment.
  \<^item> A Python float that is only stored or compared is the real number it denotes, with
    \<open>NaN\<close> added where the code tests for it. Where the code computes with floats (the
    cutoff of \<^verbatim>\<open>MilvusDB.search_similar\<close>) the float is a binary64 number and the
    rounding of the operation is written out.
  \<^item> Timestamps, durations and log lines are left out.
  \<^item> A Python \<^verbatim>\<open>str\<close> is a list of 8-bit characters, read as code points below 256.
\<close>

type_synonym exn = string

section \<open>Binary64 arithmetic\<close>

text \<open>
  A finite Python float: \<open>Binary64 m e\<close> is the number \<open>m * 2\<^sup>e\<close>. The literals \<^verbatim>\<open>0.2\<close>
  and \<^verbatim>\<open>0.4\<close> of the source are the binary64 numbers nearest to 0.2 and 0.4.
\<close>

datatype binary64 = Binary64 int int

fun value_of :: "binary64 \<Rightarrow> real" where
  "value_of (Binary64 m e) = of_int m * 2 powi e"

definition float_0_2 :: binary64 where
  "float_0_2 = Binary64 3602879701896397 (- 54)"

definition float_0_4 :: binary64 where
  "float_0_4 = Binary64 3602879701896397 (- 53)"

text \<open>The number of binary digits of a natural number.\<close>

fun bit_length :: "nat \<Rightarrow> nat" where
  "bit_length n = (if n = 0 then 0 else Suc (bit_length (n div 2)))"

declare bit_length.simps [simp del]

text \<open>
  \<open>round_half_even n s\<close> is \<open>n / 2\<^sup>s\<close> rounded to the nearest integer, a tie to the even
  one; \<open>round_binary64 m e\<close> is \<open>m * 2\<^sup>e\<close> rounded to 53 significant binary digits.
  Subtraction is the exact difference, rounded. The exponent is not bounded: the
  operands here are a cutoff above 0.4 and 0.2, where binary64 subtraction neither
  overflows nor underflows.
\<close>

definition round_half_even :: "nat \<Rightarrow> nat \<Rightarrow> nat" where
  "round_half_even n s =
     (let q = n div 2 ^ s; r = n mod 2 ^ s
      in if 2 * r > 2 ^ s \<or> (2 * r = 2 ^ s \<and> odd q) then q + 1 else q)"

definition round_binary64 :: "int \<Rightarrow> int \<Rightarrow> binary64" where
  "round_binary64 m e =
     (let s = bit_length (nat \<bar>m\<bar>) - 53
      in Binary64 (sgn m * int (round_half_even (nat \<bar>m\<bar>) s)) (e + int s))"

fun float_sub :: "binary64 \<Rightarrow> binary64 \<Rightarrow> binary64" where
  "float_sub (Binary64 m1 e1) (Binary64 m2 e2) =
     (let e = min e1 e2
      in round_binary64 (m1 * 2 ^ nat (e1 - e) - m2 * 2 ^ nat (e2 - e)) e)"

section \<open>Vector store (\<^verbatim>\<open>db/vector_store.py\<close>)\<close>

subsection \<open>Data\<close>

datatype component = Val real | NaN

datatype metadata = MetaStr string | MetaDict "(string \<times> string) list"

text \<open>
  One element of \<^verbatim>\<open>embeddings_data\<close>: a dictionary in which any key may be missing
  (\<open>None\<close>).
\<close>

record chunk_data =
  cd_id :: "string option"
  cd_document_id :: "string option"
  cd_chunk_id :: "string option"
  cd_text :: "string option"
  cd_embedding :: "component list option"
  cd_metadata :: "metadata option"

text \<open>A validated dictionary, which is also one stored entity of the Milvus collection.\<close>

record row =
  row_id :: string
  row_document_id :: string
  row_chunk_id :: string
  row_text :: string
  row_metadata :: string
  row_embedding :: "component list"

record collection =
  col_dim :: nat
  col_metric_type :: string
  col_index_type :: string
  col_loaded :: bool
  col_rows :: "row list"

text \<open>
  The result dictionaries of \<^verbatim>\<open>search_similar\<close>; the \<^verbatim>\<open>"metadata"\<close> entry is the
  stored string for Milvus and the whole payload for Qdrant.
\<close>

record 'meta scored_chunk =
  sc_document_id :: "string option"
  sc_chunk_id :: "string option"
  sc_text :: "string option"
  sc_metadata :: "'meta"
  sc_score :: "real option"

record milvus_hit =
  hit_document_id :: "string option"
  hit_chunk_id :: "string option"
  hit_text :: "string option"
  hit_metadata :: "string option"
  hit_score :: real

subsection \<open>\<^verbatim>\<open>MilvusDB\<close>\<close>

text \<open>
  The object (\<open>collection_name\<close>, \<open>dimension\<close>, \<open>connection_established\<close>,
  \<open>max_retries\<close>) together with the collections held by the server it talks to.
\<close>

record milvus =
  collection_name :: string
  dimension :: nat
  connection_established :: bool
  max_retries :: nat
  server :: "string \<rightharpoonup> collection"

text \<open>
  What the network and the libraries answer: \<open>connect_fails n\<close> is the exception of
  \<^verbatim>\<open>connections.connect\<close> on attempt \<open>n\<close> (if any), \<open>utility_fails\<close> that of
  \<^verbatim>\<open>utility.has_collection\<close>, \<open>insert_fails n\<close> that of \<^verbatim>\<open>collection.insert\<close> on
  attempt \<open>n\<close>, \<open>collection_search\<close> the hits of \<^verbatim>\<open>collection.search\<close> over the stored
  rows for a query vector and a limit, \<open>collection_delete_fails\<close> the exception of
  \<^verbatim>\<open>collection.delete\<close>, and \<open>json_dumps\<close> is \<^verbatim>\<open>json.dumps\<close> on a dictionary of
  strings. \<open>recursion_limit\<close> is the number of nested calls of \<^verbatim>\<open>search_similar\<close> the
  interpreter allows before it raises \<^verbatim>\<open>RecursionError\<close>.
\<close>

record milvus_env =
  connect_fails :: "nat \<Rightarrow> exn option"
  utility_fails :: "exn option"
  insert_fails :: "nat \<Rightarrow> exn option"
  collection_search :: "row list \<Rightarrow> component list \<Rightarrow> nat \<Rightarrow> exn + milvus_hit list"
  collection_delete_fails :: "exn option"
  json_dumps :: "(string \<times> string) list \<Rightarrow> string"
  recursion_limit :: nat

text \<open>
  \<^verbatim>\<open>connect_with_retry\<close>: the loop over \<^verbatim>\<open>range(retries)\<close>. The result \<open>False\<close> stands
  for the \<^verbatim>\<open>None\<close> returned when the loop body never runs.
\<close>

fun connect_attempts :: "milvus_env \<Rightarrow> nat \<Rightarrow> nat list \<Rightarrow> milvus \<Rightarrow> (exn + bool) \<times> milvus" where
  "connect_attempts env retries [] m = (Inr False, m)"
| "connect_attempts env retries (attempt # rest) m =
     (case connect_fails env attempt of
        None \<Rightarrow> (Inr True, m\<lparr>connection_established := True\<rparr>)
      | Some e \<Rightarrow>
          if attempt < retries - 1 then connect_attempts env retries rest m
          else (Inl e, m\<lparr>connection_established := False\<rparr>))"

definition connect_with_retry :: "milvus_env \<Rightarrow> nat option \<Rightarrow> milvus \<Rightarrow> (exn + bool) \<times> milvus" where
  "connect_with_retry env retries m =
     (let n = (case retries of None \<Rightarrow> max_retries m | Some r \<Rightarrow> r)
      in connect_attempts env n [0..<n] m)"

definition connect :: "milvus_env \<Rightarrow> milvus \<Rightarrow> (exn + bool) \<times> milvus" where
  "connect env m = connect_with_retry env (Some 1) m"

definition new_collection :: "nat \<Rightarrow> collection" where
  "new_collection dims =
     \<lparr>col_dim = dims, col_metric_type = ''COSINE'', col_index_type = ''HNSW'',
      col_loaded = False, col_rows = []\<rparr>"

text \<open>
  \<^verbatim>\<open>initialize_collection\<close>: nothing is done when the connection is down; a missing
  collection is created with the object's dimension and an HNSW index on the cosine
  metric; an existing one is only loaded.
\<close>

definition initialize_collection :: "milvus_env \<Rightarrow> milvus \<Rightarrow> (exn + bool) \<times> milvus" where
  "initialize_collection env m =
     (if \<not> connection_established m then (Inr False, m)
      else case utility_fails env of
        Some e \<Rightarrow> (Inl e, m)
      | None \<Rightarrow>
          (let has_collection = (server m (collection_name m) \<noteq> None);
               srv = (if \<not> has_collection
                      then (server m)(collection_name m \<mapsto> new_collection (dimension m))
                      else server m)
           in case srv (collection_name m) of
                None \<Rightarrow> (Inl ''collection not found'', m\<lparr>server := srv\<rparr>)
              | Some c \<Rightarrow>
                  (Inr True, m\<lparr>server := srv(collection_name m \<mapsto> c\<lparr>col_loaded := True\<rparr>)\<rparr>)))"

text \<open>\<^verbatim>\<open>MilvusDB.__init__\<close> over a server, with the two settings it reads.\<close>

definition MilvusDB_init ::
  "milvus_env \<Rightarrow> string \<Rightarrow> nat \<Rightarrow> (string \<rightharpoonup> collection) \<Rightarrow> (exn + unit) \<times> milvus" where
  "MilvusDB_init env ZILLIZ_COLLECTION_NAME EMBEDDING_DIMENSION srv =
     (let m0 = \<lparr>collection_name = ZILLIZ_COLLECTION_NAME, dimension = EMBEDDING_DIMENSION,
                connection_established = False, max_retries = 3, server = srv\<rparr>
      in case connect_with_retry env None m0 of
           (Inl e, m1) \<Rightarrow> (Inl e, m1)
         | (Inr _, m1) \<Rightarrow>
             (case initialize_collection env m1 of
                (Inl e, m2) \<Rightarrow> (Inl e, m2)
              | (Inr _, m2) \<Rightarrow> (Inr (), m2)))"

text \<open>
  \<^verbatim>\<open>validate_embeddings\<close>, one loop iteration: \<open>None\<close> is \<^verbatim>\<open>continue\<close>, \<open>Some r\<close> the
  dictionary appended to \<^verbatim>\<open>valid_embeddings\<close> (all six keys present by then).
\<close>

definition validate_one :: "milvus_env \<Rightarrow> nat \<Rightarrow> chunk_data \<Rightarrow> row option" where
  "validate_one env dims data =
     (case (cd_id data, cd_document_id data, cd_chunk_id data, cd_text data, cd_embedding data) of
        (Some i, Some d, Some c, Some t, Some emb) \<Rightarrow>
          if length emb \<noteq> dims then None
          else if list_ex (\<lambda>v. v = NaN) emb then None
          else
            (let text = (if length t > 65000 then take 65000 t else t);
                 meta = (case cd_metadata data of
                           None \<Rightarrow> json_dumps env [(''document_id'', d), (''chunk_id'', c)]
                         | Some (MetaDict kv) \<Rightarrow> json_dumps env kv
                         | Some (MetaStr s) \<Rightarrow> s);
                 meta' = (if length meta > 65000 then take 65000 meta else meta)
             in Some \<lparr>row_id = i, row_document_id = d, row_chunk_id = c, row_text = text,
                      row_metadata = meta', row_embedding = emb\<rparr>)
      | _ \<Rightarrow> None)"

fun validate_embeddings :: "milvus_env \<Rightarrow> nat \<Rightarrow> chunk_data list \<Rightarrow> row list" where
  "validate_embeddings env dims [] = []"
| "validate_embeddings env dims (data # rest) =
     (case validate_one env dims data of
        None \<Rightarrow> validate_embeddings env dims rest
      | Some r \<Rightarrow> r # validate_embeddings env dims rest)"

text \<open>
  The insertion loop of \<^verbatim>\<open>insert_embeddings\<close>: \<open>Inr True\<close> when an attempt went
  through (\<^verbatim>\<open>break\<close>), \<open>Inr False\<close> when the loop body never ran.
\<close>

fun insert_attempts :: "milvus_env \<Rightarrow> nat \<Rightarrow> nat list \<Rightarrow> exn + bool" where
  "insert_attempts env retries [] = Inr False"
| "insert_attempts env retries (attempt # rest) =
     (case insert_fails env attempt of
        None \<Rightarrow> Inr True
      | Some e \<Rightarrow> if attempt < retries - 1 then insert_attempts env retries rest else Inl e)"

definition reconnect_if_needed :: "milvus_env \<Rightarrow> milvus \<Rightarrow> (exn + bool) \<times> milvus" where
  "reconnect_if_needed env m =
     (if \<not> connection_established m then connect_with_retry env None m else (Inr True, m))"

definition insert_embeddings :: "milvus_env \<Rightarrow> milvus \<Rightarrow> chunk_data list \<Rightarrow> (exn + string list) \<times> milvus" where
  "insert_embeddings env m embeddings_data =
     (if embeddings_data = [] then (Inr [], m)
      else case reconnect_if_needed env m of
        (Inl e, m1) \<Rightarrow> (Inl e, m1)
      | (Inr _, m1) \<Rightarrow>
          if \<not> connection_established m1 then (Inr [], m1)
          else
            (let valid_embeddings = validate_embeddings env (dimension m1) embeddings_data
             in if valid_embeddings = [] then (Inr [], m1)
                else
                  (let ids = map row_id valid_embeddings
                   in case server m1 (collection_name m1) of
                        None \<Rightarrow> (Inl ''collection not found'', m1)
                      | Some c \<Rightarrow>
                          (case insert_attempts env (max_retries m1) [0..<max_retries m1] of
                             Inl e \<Rightarrow> (Inl e, m1)
                           | Inr inserted \<Rightarrow>
                               (Inr ids,
                                if inserted
                                then m1\<lparr>server := (server m1)(collection_name m1 \<mapsto>
                                          c\<lparr>col_rows := col_rows c @ valid_embeddings\<rparr>)\<rparr>
                                else m1)))))"

text \<open>
  The \<^verbatim>\<open>except\<close> clause of \<^verbatim>\<open>search_similar\<close>: mark the connection as lost, try one
  reconnect, and raise again (the reconnect's own exception if it fails).
\<close>

definition search_except :: "milvus_env \<Rightarrow> exn \<Rightarrow> milvus \<Rightarrow> (exn + string option scored_chunk list) \<times> milvus" where
  "search_except env e m =
     (case connect_with_retry env (Some 1) (m\<lparr>connection_established := False\<rparr>) of
        (Inl e', m1) \<Rightarrow> (Inl e', m1)
      | (Inr _, m1) \<Rightarrow> (Inl e, m1))"

definition format_hit :: "milvus_hit \<Rightarrow> string option scored_chunk" where
  "format_hit hit =
     \<lparr>sc_document_id = hit_document_id hit, sc_chunk_id = hit_chunk_id hit,
      sc_text = hit_text hit, sc_metadata = hit_metadata hit, sc_score = Some (hit_score hit)\<rparr>"

definition RecursionError :: exn where
  "RecursionError = ''maximum recursion depth exceeded''"

text \<open>
  \<^verbatim>\<open>search_similar\<close>: hits below the cutoff are skipped; when none is left and the
  cutoff is above 0.4, the method calls itself with the cutoff lowered by 0.2, in binary64
  arithmetic. \<open>depth\<close> is the number of nested calls the interpreter still allows: a call
  beyond it raises \<^verbatim>\<open>RecursionError\<close>, which the \<^verbatim>\<open>except\<close> clause of the calling
  frame handles like any other exception.
\<close>

fun search_similar_at ::
  "nat \<Rightarrow> milvus_env \<Rightarrow> milvus \<Rightarrow> component list \<Rightarrow> nat \<Rightarrow> binary64 \<Rightarrow>
   (exn + string option scored_chunk list) \<times> milvus" where
  "search_similar_at depth env m query_embedding limit similarity_cutoff =
     (if depth = 0 then (Inl RecursionError, m)
      else case reconnect_if_needed env m of
        (Inl e, m1) \<Rightarrow> search_except env e m1
      | (Inr _, m1) \<Rightarrow>
          if \<not> connection_established m1 then (Inr [], m1)
          else case server m1 (collection_name m1) of
            None \<Rightarrow> search_except env ''collection not found'' m1
          | Some c \<Rightarrow>
              (case collection_search env (col_rows c) query_embedding limit of
                 Inl e \<Rightarrow> search_except env e m1
               | Inr results \<Rightarrow>
                   (let formatted_results =
                          map format_hit
                            (filter (\<lambda>hit. \<not> hit_score hit < value_of similarity_cutoff) results)
                    in if formatted_results \<noteq> [] then (Inr formatted_results, m1)
                       else if value_of similarity_cutoff > value_of float_0_4 then
                         (case search_similar_at (depth - 1) env m1 query_embedding limit
                                 (float_sub similarity_cutoff float_0_2) of
                            (Inl e, m2) \<Rightarrow> search_except env e m2
                          | (Inr r, m2) \<Rightarrow> (Inr r, m2))
                       else (Inr formatted_results, m1))))"

declare search_similar_at.simps [simp del]

definition search_similar ::
  "milvus_env \<Rightarrow> milvus \<Rightarrow> component list \<Rightarrow> nat \<Rightarrow> binary64 \<Rightarrow>
   (exn + string option scored_chunk list) \<times> milvus" where
  "search_similar env m query_embedding limit similarity_cutoff =
     search_similar_at (recursion_limit env) env m query_embedding limit similarity_cutoff"

text \<open>
  \<^verbatim>\<open>delete_by_document_id\<close>: the reconnect sits outside the \<^verbatim>\<open>try\<close>; any failure
  inside it is answered by \<open>False\<close>.
\<close>

definition delete_by_document_id :: "milvus_env \<Rightarrow> milvus \<Rightarrow> string \<Rightarrow> (exn + bool) \<times> milvus" where
  "delete_by_document_id env m doc_id =
     (case reconnect_if_needed env m of
        (Inl e, m1) \<Rightarrow> (Inl e, m1)
      | (Inr _, m1) \<Rightarrow>
          if \<not> connection_established m1 then (Inr False, m1)
          else case server m1 (collection_name m1) of
            None \<Rightarrow> (Inr False, m1)
          | Some c \<Rightarrow>
              (case collection_delete_fails env of
                 Some e \<Rightarrow> (Inr False, m1)
               | None \<Rightarrow>
                   (Inr True,
                    m1\<lparr>server := (server m1)(collection_name m1 \<mapsto>
                          c\<lparr>col_rows := filter (\<lambda>r. row_document_id r \<noteq> doc_id) (col_rows c)\<rparr>)\<rparr>)))"

subsection \<open>\<^verbatim>\<open>QdrantDB\<close>\<close>

type_synonym payload = "(string \<times> string option) list"

record point =
  pt_id :: "string option"
  pt_vector :: "component list option"
  pt_payload :: payload

record qdrant_collection =
  qc_size :: nat
  qc_distance :: string
  qc_points :: "point list"

record qdrant =
  q_collection_name :: string
  q_dimension :: nat
  q_server :: "string \<rightharpoonup> qdrant_collection"

record qdrant_hit =
  qh_score :: "real option"
  qh_payload :: "payload option"

text \<open>
  The client's answers: \<open>get_collections_fails\<close>, \<open>upsert_fails\<close> (the server may
  reject a batch of points) and \<open>client_delete_fails\<close> are the exceptions of the calls of
  these names, \<open>client_search\<close> the hits of \<^verbatim>\<open>client.search\<close>, and \<open>json_loads\<close> is
  \<^verbatim>\<open>json.loads\<close> on a metadata string.
\<close>

record qdrant_env =
  get_collections_fails :: "exn option"
  upsert_fails :: "point list \<Rightarrow> exn option"
  client_search :: "point list \<Rightarrow> component list \<Rightarrow> nat \<Rightarrow> exn + qdrant_hit list"
  client_delete_fails :: "exn option"
  json_loads :: "string \<Rightarrow> exn + payload"

text \<open>\<^verbatim>\<open>d[k] = v\<close> and \<^verbatim>\<open>d.update(new)\<close> and \<^verbatim>\<open>d.get(k)\<close> on a dictionary kept in insertion order.\<close>

fun dict_set :: "('k \<times> 'v) list \<Rightarrow> 'k \<Rightarrow> 'v \<Rightarrow> ('k \<times> 'v) list" where
  "dict_set [] k v = [(k, v)]"
| "dict_set ((k', v') # kvs) k v =
     (if k' = k then (k, v) # kvs else (k', v') # dict_set kvs k v)"

fun dict_update :: "('k \<times> 'v) list \<Rightarrow> ('k \<times> 'v) list \<Rightarrow> ('k \<times> 'v) list" where
  "dict_update d [] = d"
| "dict_update d ((k, v) # new) = dict_update (dict_set d k v) new"

definition payload_get :: "payload \<Rightarrow> string \<Rightarrow> string option" where
  "payload_get p k = (case map_of p k of None \<Rightarrow> None | Some v \<Rightarrow> v)"

text \<open>
  \<^verbatim>\<open>QdrantDB.__init__\<close>: a collection of the configured name that already exists is
  deleted, and a new one is created in every case.
\<close>

definition QdrantDB_init ::
  "qdrant_env \<Rightarrow> string \<Rightarrow> nat \<Rightarrow> (string \<rightharpoonup> qdrant_collection) \<Rightarrow> (exn + unit) \<times> qdrant" where
  "QdrantDB_init env QDRANT_COLLECTION_NAME EMBEDDING_DIMENSION srv =
     (let q0 = \<lparr>q_collection_name = QDRANT_COLLECTION_NAME, q_dimension = EMBEDDING_DIMENSION,
                q_server = srv\<rparr>
      in case get_collections_fails env of
           Some e \<Rightarrow> (Inl e, q0)
         | None \<Rightarrow>
             (let srv1 = (if srv QDRANT_COLLECTION_NAME \<noteq> None
                          then srv(QDRANT_COLLECTION_NAME := None) else srv);
                  srv2 = srv1(QDRANT_COLLECTION_NAME \<mapsto>
                           \<lparr>qc_size = EMBEDDING_DIMENSION, qc_distance = ''Cosine'', qc_points = []\<rparr>)
              in (Inr (), q0\<lparr>q_server := srv2\<rparr>)))"

text \<open>
  The body of the loop of \<^verbatim>\<open>QdrantDB.insert_embeddings\<close>: the point built from one
  dictionary, every field read with \<^verbatim>\<open>data.get\<close>. The metadata is merged into the
  payload when it is a string that parses; any failure there is passed over. What
  \<^verbatim>\<open>PointStruct\<close> itself would refuse is left to the server's answer.
\<close>

definition make_point :: "qdrant_env \<Rightarrow> chunk_data \<Rightarrow> point" where
  "make_point env data =
     (let payload0 = [(''document_id'', cd_document_id data), (''chunk_id'', cd_chunk_id data),
                      (''text'', cd_text data)];
          payload1 = (case cd_metadata data of
                        Some (MetaStr meta) \<Rightarrow>
                          if meta = [] then payload0
                          else (case json_loads env meta of
                                  Inl e \<Rightarrow> payload0
                                | Inr kv \<Rightarrow> dict_update payload0 kv)
                      | _ \<Rightarrow> payload0)
      in \<lparr>pt_id = cd_id data, pt_vector = cd_embedding data, pt_payload = payload1\<rparr>)"

text \<open>\<^verbatim>\<open>client.upsert\<close> once the server has accepted the points: same id, same place.\<close>

definition upsert :: "point list \<Rightarrow> point list \<Rightarrow> point list" where
  "upsert old new = filter (\<lambda>p. pt_id p \<notin> set (map pt_id new)) old @ new"

definition QdrantDB_insert_embeddings ::
  "qdrant_env \<Rightarrow> qdrant \<Rightarrow> chunk_data list \<Rightarrow> (exn + string option list) \<times> qdrant" where
  "QdrantDB_insert_embeddings env q embeddings_data =
     (if embeddings_data = [] then (Inr [], q)
      else
        (let points = map (make_point env) embeddings_data;
             ids = map cd_id embeddings_data
         in case q_server q (q_collection_name q) of
              None \<Rightarrow> (Inl ''collection not found'', q)
            | Some c \<Rightarrow>
                (case upsert_fails env points of
                   Some e \<Rightarrow> (Inl e, q)
                 | None \<Rightarrow>
                     (Inr ids,
                      q\<lparr>q_server := (q_server q)(q_collection_name q \<mapsto>
                           c\<lparr>qc_points := upsert (qc_points c) points\<rparr>)\<rparr>))))"

definition format_qdrant_hit :: "qdrant_hit \<Rightarrow> payload scored_chunk" where
  "format_qdrant_hit hit =
     (let payload = (case qh_payload hit of None \<Rightarrow> [] | Some p \<Rightarrow> p)
      in \<lparr>sc_document_id = payload_get payload ''document_id'',
          sc_chunk_id = payload_get payload ''chunk_id'',
          sc_text = payload_get payload ''text'',
          sc_metadata = payload, sc_score = qh_score hit\<rparr>)"

definition below_cutoff :: "real \<Rightarrow> qdrant_hit \<Rightarrow> bool" where
  "below_cutoff similarity_cutoff hit =
     (case qh_score hit of None \<Rightarrow> False | Some score \<Rightarrow> score < similarity_cutoff)"

text \<open>\<^verbatim>\<open>QdrantDB.search_similar\<close>: one search, one filter.\<close>

definition QdrantDB_search_similar ::
  "qdrant_env \<Rightarrow> qdrant \<Rightarrow> component list \<Rightarrow> nat \<Rightarrow> real \<Rightarrow> exn + payload scored_chunk list" where
  "QdrantDB_search_similar env q query_embedding limit similarity_cutoff =
     (case q_server q (q_collection_name q) of
        None \<Rightarrow> Inl ''collection not found''
      | Some c \<Rightarrow>
          (case client_search env (qc_points c) query_embedding limit of
             Inl e \<Rightarrow> Inl e
           | Inr results \<Rightarrow>
               Inr (map format_qdrant_hit
                      (filter (\<lambda>hit. \<not> below_cutoff similarity_cutoff hit) results))))"

definition QdrantDB_delete_by_document_id :: "qdrant_env \<Rightarrow> qdrant \<Rightarrow> string \<Rightarrow> bool \<times> qdrant" where
  "QdrantDB_delete_by_document_id env q doc_id =
     (case q_server q (q_collection_name q) of
        None \<Rightarrow> (False, q)
      | Some c \<Rightarrow>
          (case client_delete_fails env of
             Some e \<Rightarrow> (False, q)
           | None \<Rightarrow>
               (True,
                q\<lparr>q_server := (q_server q)(q_collection_name q \<mapsto>
                     c\<lparr>qc_points := filter (\<lambda>p. payload_get (pt_payload p) ''document_id'' \<noteq> Some doc_id)
                                          (qc_points c)\<rparr>)\<rparr>)))"

subsection \<open>The backend chosen by \<^verbatim>\<open>get_vector_db\<close>\<close>

datatype vector_db = Zilliz milvus | Qdrant qdrant

record vector_env =
  zilliz_env :: milvus_env
  qdrant_env :: qdrant_env

text \<open>The two calls the document processor makes on \<^verbatim>\<open>self.vector_db\<close>.\<close>

fun vdb_insert_embeddings ::
  "vector_env \<Rightarrow> vector_db \<Rightarrow> chunk_data list \<Rightarrow> (exn + string option list) \<times> vector_db" where
  "vdb_insert_embeddings env (Zilliz m) data =
     (case insert_embeddings (zilliz_env env) m data of
        (Inl e, m') \<Rightarrow> (Inl e, Zilliz m')
      | (Inr ids, m') \<Rightarrow> (Inr (map Some ids), Zilliz m'))"
| "vdb_insert_embeddings env (Qdrant q) data =
     (case QdrantDB_insert_embeddings (qdrant_env env) q data of
        (r, q') \<Rightarrow> (r, Qdrant q'))"

fun vdb_delete_by_document_id ::
  "vector_env \<Rightarrow> vector_db \<Rightarrow> string \<Rightarrow> (exn + bool) \<times> vector_db" where
  "vdb_delete_by_document_id env (Zilliz m) doc_id =
     (case delete_by_document_id (zilliz_env env) m doc_id of
        (r, m') \<Rightarrow> (r, Zilliz m'))"
| "vdb_delete_by_document_id env (Qdrant q) doc_id =
     (case QdrantDB_delete_by_document_id (qdrant_env env) q doc_id of
        (b, q') \<Rightarrow> (Inr b, Qdrant q'))"

section \<open>Python strings\<close>

text \<open>
  \<^verbatim>\<open>str.isspace\<close> on the code points below 256, and \<^verbatim>\<open>str.split()\<close> without arguments:
  the maximal runs of characters that are not whitespace.
\<close>

definition isspace :: "char \<Rightarrow> bool" where
  "isspace c =
     (let n = (of_char c :: nat)
      in (9 \<le> n \<and> n \<le> 13) \<or> (28 \<le> n \<and> n \<le> 32) \<or> n = 133 \<or> n = 160)"

fun split_from :: "string \<Rightarrow> string \<Rightarrow> string list" where
  "split_from cur [] = (if cur = [] then [] else [rev cur])"
| "split_from cur (c # cs) =
     (if isspace c then (if cur = [] then split_from [] cs else rev cur # split_from [] cs)
      else split_from (c # cur) cs)"

definition str_split :: "string \<Rightarrow> string list" where
  "str_split s = split_from [] s"

text \<open>\<^verbatim>\<open>str.lower\<close> on the code points below 256: the letters A to Z and the capital letters of Latin-1.\<close>

fun lower_char :: "char \<Rightarrow> char" where
  "lower_char (Char b0 b1 b2 b3 b4 b5 b6 b7) =
     (let n = (of_char (Char b0 b1 b2 b3 b4 b5 b6 b7) :: nat)
      in if (65 \<le> n \<and> n \<le> 90) \<or> (192 \<le> n \<and> n \<le> 222 \<and> n \<noteq> 215)
         then Char b0 b1 b2 b3 b4 True b6 b7
         else Char b0 b1 b2 b3 b4 b5 b6 b7)"

definition str_lower :: "string \<Rightarrow> string" where
  "str_lower s = map lower_char s"

definition str_strip :: "string \<Rightarrow> string" where
  "str_strip s = rev (dropWhile isspace (rev (dropWhile isspace s)))"

definition startswith :: "string \<Rightarrow> string \<Rightarrow> bool" where
  "startswith s pre = (take (length pre) s = pre)"

fun str_join :: "string \<Rightarrow> string list \<Rightarrow> string" where
  "str_join sep [] = []"
| "str_join sep [x] = x"
| "str_join sep (x # y # ys) = x @ sep @ str_join sep (y # ys)"

definition dict_get :: "('k \<times> 'v) list \<Rightarrow> 'k \<Rightarrow> 'v \<Rightarrow> 'v" where
  "dict_get d k dflt = (case map_of d k of None \<Rightarrow> dflt | Some v \<Rightarrow> v)"

section \<open>Query engine (\<^verbatim>\<open>services/query_engine.py\<close>)\<close>

subsection \<open>Data\<close>

text \<open>The constants of \<^verbatim>\<open>class RAGStatus\<close>.\<close>

definition RAGStatus_SUCCESS :: string where "RAGStatus_SUCCESS = ''rag_success''"
definition RAGStatus_FALLBACK :: string where "RAGStatus_FALLBACK = ''llm_fallback''"
definition RAGStatus_ERROR :: string where "RAGStatus_ERROR = ''error''"
definition RAGStatus_NO_RESULTS :: string where "RAGStatus_NO_RESULTS = ''no_context_found''"
definition RAGStatus_NO_DOCUMENTS :: string where "RAGStatus_NO_DOCUMENTS = ''no_documents''"

text \<open>A \<^verbatim>\<open>Groq\<close> client object, and the fields of \<^verbatim>\<open>app_settings\<close> the engine reads.\<close>

record llm =
  llm_model :: string
  llm_max_tokens :: nat
  llm_temperature :: real

record app_settings =
  LLM_MODEL :: string
  LLM_MAX_TOKENS :: nat
  LLM_TEMPERATURE :: real
  EMBEDDING_MODEL :: string

text \<open>The process-wide \<^verbatim>\<open>llama_index.core.Settings\<close> singleton.\<close>

record settings =
  Settings_llm :: llm
  Settings_embed_model :: string

record source =
  src_document_id :: "string option"
  src_chunk_id :: "string option"
  src_score :: "real option"

text \<open>The \<^verbatim>\<open>QueryEngine\<close> object: \<^verbatim>\<open>self.llm\<close>, \<^verbatim>\<open>self.embeddings\<close>, \<^verbatim>\<open>self.last_sources\<close>.\<close>

record query_engine =
  self_llm :: llm
  self_embeddings :: string
  last_sources :: "source list"

record chatbot_settings =
  cs_role :: "string option"
  cs_instructions :: "string option"

record chatbot =
  cb_documents :: "string list option"
  cb_settings :: "chatbot_settings option"

text \<open>
  What \<^verbatim>\<open>llm.chat\<close> may return, as far as \<^verbatim>\<open>_query_llm_only\<close> tells the shapes apart: an
  object with \<^verbatim>\<open>message.content\<close> (possibly \<^verbatim>\<open>None\<close>), a dictionary with a
  \<^verbatim>\<open>'content'\<close> key, a string, anything else.
\<close>

datatype chat_response =
  MessageContent "string option"
| DictContent string
| StrResponse string
| OtherResponse

record source_node =
  sn_has_metadata :: bool
  sn_document_id :: "string option"
  sn_chunk_id :: "string option"
  sn_score :: "real option"

text \<open>The response of the retriever query engine: \<^verbatim>\<open>str(response)\<close> and \<^verbatim>\<open>response.source_nodes\<close> (if it has any).\<close>

record engine_response =
  response_str :: string
  response_source_nodes :: "source_node list option"

text \<open>
  The collaborators of \<^verbatim>\<open>query\<close>: the chatbot store, the LLM provider, the construction
  of the vector store and its index over the documents in scope (the exception it raises,
  if any), and the retriever query engine run with the global LLM, a \<^verbatim>\<open>similarity_top_k\<close>,
  a \<^verbatim>\<open>similarity_cutoff\<close> and a system prompt on a query string.
\<close>

record query_env =
  get_chatbot :: "string \<Rightarrow> exn + chatbot option"
  llm_chat :: "llm \<Rightarrow> (string \<times> string) list \<Rightarrow> exn + chat_response"
  create_vector_store_for_documents :: "string list \<Rightarrow> exn option"
  engine_query :: "llm \<Rightarrow> nat \<Rightarrow> real \<Rightarrow> string option \<Rightarrow> string \<Rightarrow> exn + engine_response"

type_synonym query_result = "string \<times> source list \<times> nat \<times> string"

subsection \<open>Operations\<close>

text \<open>\<^verbatim>\<open>QueryEngine.__init__\<close>: the object and the global settings it installs.\<close>

definition QueryEngine_init :: "app_settings \<Rightarrow> query_engine \<times> settings" where
  "QueryEngine_init cfg =
     (let l = \<lparr>llm_model = LLM_MODEL cfg, llm_max_tokens = LLM_MAX_TOKENS cfg,
               llm_temperature = LLM_TEMPERATURE cfg\<rparr>
      in (\<lparr>self_llm = l, self_embeddings = EMBEDDING_MODEL cfg, last_sources = []\<rparr>,
          \<lparr>Settings_llm = l, Settings_embed_model = EMBEDDING_MODEL cfg\<rparr>))"

text \<open>\<^verbatim>\<open>create_service_context\<close>: it returns nothing and assigns to the global settings.\<close>

definition create_service_context ::
  "app_settings \<Rightarrow> query_engine \<Rightarrow> settings \<Rightarrow> real option \<Rightarrow> settings" where
  "create_service_context cfg self g temperature =
     (case temperature of
        Some t \<Rightarrow>
          g\<lparr>Settings_llm := \<lparr>llm_model = LLM_MODEL cfg, llm_max_tokens = LLM_MAX_TOKENS cfg,
                              llm_temperature = t\<rparr>,
            Settings_embed_model := self_embeddings self\<rparr>
      | None \<Rightarrow> g\<lparr>Settings_llm := self_llm self, Settings_embed_model := self_embeddings self\<rparr>)"

definition complex_indicators :: "string list" where
  "complex_indicators =
     [''why'', ''how'', ''explain'', ''describe'', ''compare'', ''contrast'', ''analyze'',
      ''relationship'', ''difference'']"

text \<open>\<^verbatim>\<open>_assess_query_complexity\<close>.\<close>

definition assess_query_complexity :: "string \<Rightarrow> string" where
  "assess_query_complexity query =
     (let words = str_split query;
          has_complex_indicator = list_ex (\<lambda>word. str_lower word \<in> set complex_indicators) words
      in if length words > 15 \<or> has_complex_indicator then ''high''
         else if length words > 8 then ''medium''
         else ''low'')"

text \<open>The retrieval parameters \<^verbatim>\<open>query\<close> derives from the complexity: \<^verbatim>\<open>(similarity_top_k, similarity_cutoff)\<close>.\<close>

definition retrieval_parameters :: "string \<Rightarrow> nat \<times> real" where
  "retrieval_parameters complexity =
     (if complexity = ''high'' then (8, 0.5)
      else if complexity = ''medium'' then (5, 0.55)
      else (3, 0.6))"

text \<open>The parts of the prompt both prompt builders take from the chatbot and the caller.\<close>

definition chatbot_role :: "chatbot option \<Rightarrow> string list" where
  "chatbot_role cb =
     (case cb of
        Some c \<Rightarrow>
          (case cb_settings c of
             Some st \<Rightarrow>
               (case cs_role st of
                  Some r \<Rightarrow> if r \<noteq> [] then [''You are a '' @ r @ ''.''] else []
                | None \<Rightarrow> [])
           | None \<Rightarrow> [])
      | None \<Rightarrow> [])"

definition chatbot_instructions :: "chatbot option \<Rightarrow> string list" where
  "chatbot_instructions cb =
     (case cb of
        Some c \<Rightarrow>
          (case cb_settings c of
             Some st \<Rightarrow>
               (case cs_instructions st of
                  Some i \<Rightarrow> if i \<noteq> [] then [i] else []
                | None \<Rightarrow> [])
           | None \<Rightarrow> [])
      | None \<Rightarrow> [])"

definition custom_instructions :: "string option \<Rightarrow> string list" where
  "custom_instructions instructions =
     (case instructions of Some i \<Rightarrow> if i \<noteq> [] then [i] else [] | None \<Rightarrow> [])"

text \<open>\<^verbatim>\<open>_build_system_prompt\<close>.\<close>

definition build_system_prompt :: "string option \<Rightarrow> chatbot option \<Rightarrow> string option" where
  "build_system_prompt instructions cb =
     (let prompt_parts = chatbot_role cb @ chatbot_instructions cb @ custom_instructions instructions @
            [''Use ONLY the provided context to answer the question. If the context doesn't contain the answer, admit that you don't know rather than making up information.'']
      in if prompt_parts \<noteq> [] then Some (str_join '' '' prompt_parts) else None)"

text \<open>\<^verbatim>\<open>_build_llm_only_prompt\<close>.\<close>

definition build_llm_only_prompt :: "string option \<Rightarrow> chatbot option \<Rightarrow> string" where
  "build_llm_only_prompt instructions cb =
     (let prompt_parts = chatbot_role cb @ chatbot_instructions cb @ custom_instructions instructions @
            [''Answer the user's question to the best of your ability based on your general knowledge.'']
      in if prompt_parts \<noteq> [] then str_join '' '' prompt_parts
         else ''You are a helpful assistant. Answer the user's question to the best of your ability.'')"

text \<open>
  The \<^verbatim>\<open>try\<close> block of \<^verbatim>\<open>_query_llm_only\<close>. The log line after the extraction takes
  \<^verbatim>\<open>len(response_content)\<close>, which raises on \<^verbatim>\<open>None\<close>.
\<close>

definition query_llm_only_try ::
  "app_settings \<Rightarrow> query_env \<Rightarrow> string \<Rightarrow> real option \<Rightarrow> string option \<Rightarrow> chatbot option \<Rightarrow>
   exn + (string \<times> string) list" where
  "query_llm_only_try cfg env query_text temperature instructions cb =
     (let system_prompt = build_llm_only_prompt instructions cb;
          messages = (if system_prompt \<noteq> [] then [(''system'', system_prompt)] else []) @
                     [(''user'', query_text)];
          temp_value = (case temperature of Some t \<Rightarrow> t | None \<Rightarrow> LLM_TEMPERATURE cfg);
          l = \<lparr>llm_model = LLM_MODEL cfg, llm_max_tokens = LLM_MAX_TOKENS cfg,
               llm_temperature = temp_value\<rparr>
      in case llm_chat env l messages of
           Inl e \<Rightarrow> Inl e
         | Inr (MessageContent None) \<Rightarrow> Inl ''object of type 'NoneType' has no len()''
         | Inr (MessageContent (Some c)) \<Rightarrow> Inr [(''response'', c)]
         | Inr (DictContent c) \<Rightarrow> Inr [(''response'', c)]
         | Inr (StrResponse c) \<Rightarrow> Inr [(''response'', c)]
         | Inr OtherResponse \<Rightarrow>
             Inr [(''response'', ''I'm having trouble generating a response right now.'')])"

text \<open>\<^verbatim>\<open>_query_llm_only\<close>: every exception of its body is answered by a fixed sentence.\<close>

definition query_llm_only ::
  "app_settings \<Rightarrow> query_env \<Rightarrow> string \<Rightarrow> real option \<Rightarrow> string option \<Rightarrow> chatbot option \<Rightarrow>
   exn + (string \<times> string) list" where
  "query_llm_only cfg env query_text temperature instructions cb =
     (case query_llm_only_try cfg env query_text temperature instructions cb of
        Inl e \<Rightarrow>
          Inr [(''response'', ''I'm having trouble generating a response right now. Please try again later.'')]
      | Inr d \<Rightarrow> Inr d)"

text \<open>
  Lines 96 to 109 of \<^verbatim>\<open>query\<close>: the chatbot is fetched only when an id is given and no
  document ids are; the result is the chatbot and the document ids in scope.
\<close>

definition resolve_scope ::
  "query_env \<Rightarrow> string list option \<Rightarrow> string option \<Rightarrow> exn + chatbot option \<times> string list" where
  "resolve_scope env document_ids chatbot_id =
     (let ids = (case document_ids of None \<Rightarrow> [] | Some xs \<Rightarrow> xs);
          cid = (case chatbot_id of None \<Rightarrow> [] | Some c \<Rightarrow> c)
      in if cid \<noteq> [] \<and> ids = [] then
           (case get_chatbot env cid of
              Inl e \<Rightarrow> Inl e
            | Inr None \<Rightarrow> Inl (''Chatbot '' @ cid @ '' not found'')
            | Inr (Some c) \<Rightarrow>
                Inr (Some c, case cb_documents c of None \<Rightarrow> [] | Some ds \<Rightarrow> ds))
         else Inr (None, ids))"

definition to_source :: "source_node \<Rightarrow> source" where
  "to_source node =
     \<lparr>src_document_id = sn_document_id node, src_chunk_id = sn_chunk_id node,
      src_score = sn_score node\<rparr>"

text \<open>Two string literals of the retrieval path: the stand-in for a blank response, and the disclaimer.\<close>

definition blank_response_text :: string where
  "blank_response_text =
     ''I apologize, but I'm having trouble generating a response based on the available information.''"

definition fallback_prefix :: string where
  "fallback_prefix =
     ''I couldn't find specific information about that in the knowledge base. ''"

text \<open>The inner \<^verbatim>\<open>try\<close> block of \<^verbatim>\<open>query\<close> (lines 117 to 214): the retrieval path.\<close>

definition query_rag ::
  "app_settings \<Rightarrow> query_env \<Rightarrow> settings \<Rightarrow> query_engine \<Rightarrow> string \<Rightarrow> string list \<Rightarrow>
   real option \<Rightarrow> string option \<Rightarrow> chatbot option \<Rightarrow> (exn + query_result) \<times> settings \<times> query_engine" where
  "query_rag cfg env g self query document_ids temperature instructions cb =
     (let g1 = create_service_context cfg self g temperature
      in case create_vector_store_for_documents env document_ids of
           Some e \<Rightarrow> (Inl e, g1, self)
         | None \<Rightarrow>
             (let complexity = assess_query_complexity query;
                  similarity_top_k = fst (retrieval_parameters complexity);
                  similarity_cutoff = snd (retrieval_parameters complexity);
                  system_prompt = build_system_prompt instructions cb
              in case engine_query env (Settings_llm g1) similarity_top_k similarity_cutoff
                        system_prompt query of
                   Inl e \<Rightarrow> (Inl e, g1, self)
                 | Inr response \<Rightarrow>
                     (let source_nodes = (case response_source_nodes response of
                                            None \<Rightarrow> [] | Some ns \<Rightarrow> ns);
                          rag_status0 = (if source_nodes = [] then RAGStatus_NO_RESULTS
                                         else RAGStatus_SUCCESS);
                          sources = map to_source (filter sn_has_metadata source_nodes);
                          self1 = self\<lparr>last_sources := sources\<rparr>;
                          response_text0 =
                            (if str_strip (response_str response) = []
                             then blank_response_text
                             else response_str response);
                          rag_status = (if sources = [] \<and> rag_status0 \<noteq> RAGStatus_NO_RESULTS
                                        then RAGStatus_FALLBACK else rag_status0);
                          tokens_used = length (str_split query) + length (str_split response_text0);
                          response_text =
                            (if rag_status = RAGStatus_NO_RESULTS \<and>
                                \<not> startswith response_text0 fallback_prefix
                             then fallback_prefix @ response_text0 else response_text0)
                      in (Inr (response_text, sources, tokens_used, rag_status), g1, self1))))"

text \<open>The outer \<^verbatim>\<open>except\<close> clause of \<^verbatim>\<open>query\<close> (lines 226 to 238).\<close>

definition query_except ::
  "app_settings \<Rightarrow> query_env \<Rightarrow> string \<Rightarrow> real option \<Rightarrow> string option \<Rightarrow> chatbot option \<Rightarrow>
   query_result" where
  "query_except cfg env query temperature instructions cb =
     (case query_llm_only cfg env query temperature instructions cb of
        Inr response \<Rightarrow>
          (dict_get response ''response'' ''I encountered an error while accessing knowledge base.'',
           [], 0, RAGStatus_FALLBACK)
      | Inl fallback_error \<Rightarrow>
          (''I apologize, but I encountered an unexpected error. Please try again later.'',
           [], 0, RAGStatus_ERROR))"

text \<open>
  \<^verbatim>\<open>query\<close>. The parameters \<^verbatim>\<open>max_tokens\<close> and \<^verbatim>\<open>model\<close> are only logged by the method.
\<close>

definition query ::
  "app_settings \<Rightarrow> query_env \<Rightarrow> settings \<Rightarrow> query_engine \<Rightarrow> string \<Rightarrow> string list option \<Rightarrow>
   string option \<Rightarrow> real option \<Rightarrow> string option \<Rightarrow> nat option \<Rightarrow> string option \<Rightarrow>
   (exn + query_result) \<times> settings \<times> query_engine" where
  "query cfg env g self query_str document_ids chatbot_id temperature instructions max_tokens model =
     (case resolve_scope env document_ids chatbot_id of
        Inl e \<Rightarrow> (Inr (query_except cfg env query_str temperature instructions None), g, self)
      | Inr (cb, ids) \<Rightarrow>
          if ids = [] then
            (case query_llm_only cfg env query_str temperature instructions cb of
               Inl e \<Rightarrow> (Inr (query_except cfg env query_str temperature instructions cb), g, self)
             | Inr response \<Rightarrow>
                 (Inr (dict_get response ''response'' ''No response generated'', [], 0,
                       RAGStatus_NO_DOCUMENTS), g, self))
          else
            (case query_rag cfg env g self query_str ids temperature instructions cb of
               (Inr r, g1, self1) \<Rightarrow> (Inr r, g1, self1)
             | (Inl vector_error, g1, self1) \<Rightarrow>
                 (case query_llm_only cfg env query_str temperature instructions cb of
                    Inl e \<Rightarrow>
                      (Inr (query_except cfg env query_str temperature instructions cb), g1, self1)
                  | Inr response \<Rightarrow>
                      (Inr (dict_get response ''response''
                              ''I encountered an error while accessing knowledge base.'',
                            [], 0, RAGStatus_ERROR), g1, self1))))"

section \<open>Document processor (\<^verbatim>\<open>services/document_processor.py\<close>)\<close>

subsection \<open>Data\<close>

text \<open>The constants of \<^verbatim>\<open>class ProcessingStep\<close> and \<^verbatim>\<open>class ProcessingStepStatus\<close>.\<close>

definition DOWNLOAD :: string where "DOWNLOAD = ''download''"
definition TEXT_EXTRACTION :: string where "TEXT_EXTRACTION = ''text_extraction''"
definition CHUNKING :: string where "CHUNKING = ''chunking''"
definition EMBEDDING :: string where "EMBEDDING = ''embedding''"
definition STORAGE :: string where "STORAGE = ''storage''"
definition CLEANUP :: string where "CLEANUP = ''cleanup''"

definition PENDING :: string where "PENDING = ''pending''"
definition IN_PROGRESS :: string where "IN_PROGRESS = ''in_progress''"
definition COMPLETED :: string where "COMPLETED = ''completed''"
definition FAILED :: string where "FAILED = ''failed''"

text \<open>
  The \<^verbatim>\<open>processing_stats\<close> dictionary of the pipeline: the entry of each step (its
  status and, if any, its error), the steps that have a duration under \<^verbatim>\<open>"stepTimes"\<close>
  (\<open>None\<close> when the dictionary has no such key), and \<^verbatim>\<open>"chunkCount"\<close>.
\<close>

record step_entry =
  se_status :: string
  se_error :: "string option"

record processing_stats =
  ps_steps :: "(string \<times> step_entry) list"
  ps_stepTimes :: "string list option"
  ps_chunkCount :: "nat option"

text \<open>
  What the \<^verbatim>\<open>processingStats\<close> field of a document holds: the pipeline's dictionary,
  or one of the two dictionaries \<^verbatim>\<open>process_document_immediately\<close> writes
  (\<^verbatim>\<open>totalChunks\<close>; \<^verbatim>\<open>totalAttempts\<close> and \<^verbatim>\<open>errorMessage\<close>).
\<close>

datatype stats_field =
  PipelineStats processing_stats
| ImmediateStats nat
| FailureStats nat string

text \<open>A document of the Firestore collection; \<open>None\<close> is a missing or null field.\<close>

record document =
  doc_id :: "string option"
  doc_name :: "string option"
  storageUri :: "string option"
  content :: "string option"
  processingStatus :: "string option"
  chunkCount :: "nat option"
  vectorIds :: "string list option"
  error :: "string option"
  processingStats :: "stats_field option"

text \<open>
  Everything the processor acts on: the Firestore documents, the blobs of the storage
  bucket, the temporary files on the local disk, and the vector database.
\<close>

record world =
  firestore :: "string \<rightharpoonup> document"
  bucket :: "string set"
  scratch :: "string set"
  vector_db :: vector_db

text \<open>
  The collaborators: \<open>download_to\<close> gives the name of the temporary file a download
  creates (or the exception of the download), \<open>blob_delete_fails\<close> and \<open>unlink_fails\<close>
  the exceptions of \<^verbatim>\<open>blob.delete\<close> and \<^verbatim>\<open>os.unlink\<close> for reasons other than a missing
  file, \<open>extract_text_from_pdf\<close> is the function of \<^verbatim>\<open>utils/pdf_utils.py\<close> (it returns
  \<^verbatim>\<open>None\<close> instead of raising), \<open>read_text\<close> reads a text file, \<open>load_data\<close> gives the
  texts of the documents \<^verbatim>\<open>SimpleDirectoryReader\<close> loads, \<open>get_nodes_from_documents\<close> the
  texts of the nodes of the sentence splitter, \<open>get_text_embedding_batch\<close> the
  embeddings, \<open>uuid4 i\<close> the identifier drawn for chunk \<open>i\<close>, and \<open>dumps\<close> is
  \<^verbatim>\<open>json.dumps\<close>.
\<close>

record processor_env =
  vector_env :: vector_env
  download_to :: "string \<Rightarrow> exn + string"
  blob_delete_fails :: "string \<Rightarrow> exn option"
  unlink_fails :: "string \<Rightarrow> exn option"
  extract_text_from_pdf :: "string \<Rightarrow> string option"
  read_text :: "string \<Rightarrow> exn + string"
  load_data :: "string \<Rightarrow> exn + string list"
  get_nodes_from_documents :: "string list \<Rightarrow> exn + string list"
  get_text_embedding_batch :: "string list \<Rightarrow> exn + component list list"
  uuid4 :: "nat \<Rightarrow> string"
  dumps :: "(string \<times> string) list \<Rightarrow> string"

text \<open>
  What \<^verbatim>\<open>process_document\<close> returns: the dictionary \<^verbatim>\<open>{"error": ...}\<close> or the one with
  \<^verbatim>\<open>chunk_count\<close>, \<^verbatim>\<open>vector_ids\<close> and \<^verbatim>\<open>processing_stats\<close>.
\<close>

datatype process_result =
  ErrorResult string
| ResultData nat "string list" processing_stats

text \<open>
  The outcome of one step of \<^verbatim>\<open>_process_content\<close>: its value, or the message with
  which the step is marked as failed before the method returns \<^verbatim>\<open>[]\<close> (an explicit
  check that failed, or the exception caught by the step's \<^verbatim>\<open>except\<close> clause).
\<close>

datatype 'a step_result = Done 'a | Failed_with string

subsection \<open>Firestore and storage (\<^verbatim>\<open>db/firebase.py\<close>)\<close>

text \<open>
  \<^verbatim>\<open>FirestoreDB.update_document\<close>: the fields of the dictionary are merged into the
  stored document (the function \<open>upd\<close>); updating a document that does not exist raises.
  The store itself is taken to be reachable.
\<close>

definition update_document :: "world \<Rightarrow> string \<Rightarrow> (document \<Rightarrow> document) \<Rightarrow> exn + world" where
  "update_document w document_id upd =
     (case firestore w document_id of
        None \<Rightarrow> Inl (''404 No document to update: '' @ document_id)
      | Some d \<Rightarrow> Inr (w\<lparr>firestore := (firestore w)(document_id \<mapsto> upd d)\<rparr>))"

definition get_document :: "world \<Rightarrow> string \<Rightarrow> document option" where
  "get_document w document_id = firestore w document_id"

definition firestore_delete_document :: "world \<Rightarrow> string \<Rightarrow> world" where
  "firestore_delete_document w document_id = w\<lparr>firestore := (firestore w)(document_id := None)\<rparr>"

text \<open>\<^verbatim>\<open>FirebaseStorage.download_file\<close>.\<close>

definition download_file :: "processor_env \<Rightarrow> world \<Rightarrow> string \<Rightarrow> (exn + string) \<times> world" where
  "download_file env w source_path =
     (if source_path \<notin> bucket w then (Inl (''File not found in storage at '' @ source_path), w)
      else case download_to env source_path of
        Inl e \<Rightarrow> (Inl e, w)
      | Inr temp_file \<Rightarrow> (Inr temp_file, w\<lparr>scratch := insert temp_file (scratch w)\<rparr>))"

text \<open>
  \<^verbatim>\<open>FirebaseStorage.delete_file\<close>: \<^verbatim>\<open>blob.delete()\<close> without any handler; the client
  raises \<^verbatim>\<open>NotFound\<close> for a blob that does not exist.
\<close>

definition delete_file :: "processor_env \<Rightarrow> world \<Rightarrow> string \<Rightarrow> (exn + bool) \<times> world" where
  "delete_file env w file_path =
     (case blob_delete_fails env file_path of
        Some e \<Rightarrow> (Inl e, w)
      | None \<Rightarrow>
          if file_path \<notin> bucket w then (Inl (''404 No such object: '' @ file_path), w)
          else (Inr True, w\<lparr>bucket := bucket w - {file_path}\<rparr>))"

subsection \<open>Status updates\<close>

definition truthy :: "string option \<Rightarrow> bool" where
  "truthy s = (case s of None \<Rightarrow> False | Some x \<Rightarrow> x \<noteq> [])"

text \<open>
  \<^verbatim>\<open>_update_processing_status\<close>: the entry of the step is replaced in the dictionary,
  then the dictionary is written to the document; a failure of the write is only logged.
\<close>

definition update_processing_status ::
  "world \<Rightarrow> string \<Rightarrow> string \<Rightarrow> string \<Rightarrow> processing_stats \<Rightarrow> string option \<Rightarrow>
   processing_stats \<times> world" where
  "update_processing_status w document_id step status stats err =
     (let entry = \<lparr>se_status = status, se_error = (if truthy err then err else None)\<rparr>;
          stats' = stats\<lparr>ps_steps := dict_set (ps_steps stats) step entry\<rparr>
      in case update_document w document_id
                (\<lambda>d. d\<lparr>processingStats := Some (PipelineStats stats')\<rparr>) of
           Inl e \<Rightarrow> (stats', w)
         | Inr w' \<Rightarrow> (stats', w'))"

text \<open>
  \<^verbatim>\<open>_update_document_status\<close>: the \<^verbatim>\<open>error\<close> field is written only for a message that
  is not empty; a failure of the write is only logged.
\<close>

definition update_document_status ::
  "world \<Rightarrow> string \<Rightarrow> string \<Rightarrow> string option \<Rightarrow> processing_stats option \<Rightarrow> world" where
  "update_document_status w document_id status err stats =
     (case update_document w document_id
             (\<lambda>d. d\<lparr>processingStatus := Some status,
                    error := (if truthy err then err else error d),
                    processingStats := (case stats of
                                          None \<Rightarrow> processingStats d
                                        | Some st \<Rightarrow> Some (PipelineStats st))\<rparr>) of
        Inl e \<Rightarrow> w
      | Inr w' \<Rightarrow> w')"

text \<open>
  \<^verbatim>\<open>processing_stats["stepTimes"][step] = ...\<close>: a \<^verbatim>\<open>KeyError\<close> when the dictionary has
  no \<^verbatim>\<open>"stepTimes"\<close>.
\<close>

definition KeyError_stepTimes :: string where
  "KeyError_stepTimes = [CHR 0x27] @ ''stepTimes'' @ [CHR 0x27]"

definition set_step_time :: "processing_stats \<Rightarrow> string \<Rightarrow> exn + processing_stats" where
  "set_step_time stats step =
     (case ps_stepTimes stats of
        None \<Rightarrow> Inl KeyError_stepTimes
      | Some ts \<Rightarrow> Inr (stats\<lparr>ps_stepTimes := Some (if step \<in> set ts then ts else ts @ [step])\<rparr>))"

subsection \<open>\<^verbatim>\<open>_process_content\<close>\<close>

text \<open>\<^verbatim>\<open>os.path.splitext(path)[1]\<close> and \<^verbatim>\<open>str(n)\<close> for a natural number.\<close>

definition splitext_ext :: "string \<Rightarrow> string" where
  "splitext_ext path =
     (let base = rev (takeWhile (\<lambda>c. c \<noteq> CHR ''/'') (rev path));
          stem = dropWhile (\<lambda>c. c = CHR ''.'') base
      in if CHR ''.'' \<in> set stem
         then CHR ''.'' # rev (takeWhile (\<lambda>c. c \<noteq> CHR ''.'') (rev stem))
         else [])"

definition digit_char :: "nat \<Rightarrow> char" where
  "digit_char n = (''0123456789'' ! n)"

fun str_nat :: "nat \<Rightarrow> string" where
  "str_nat n = (if n < 10 then [digit_char n] else str_nat (n div 10) @ [digit_char (n mod 10)])"

declare str_nat.simps [simp del]

text \<open>
  The check that ends step 2 (\<^verbatim>\<open>not documents or all(not doc.text ...)\<close>), followed by
  the assignment of the step's duration.
\<close>

definition validate_extraction :: "processing_stats \<Rightarrow> string list \<Rightarrow> (string list \<times> processing_stats) step_result" where
  "validate_extraction stats documents =
     (if documents = [] \<or> list_all (\<lambda>text. text = []) documents
      then Failed_with ''Text extraction failed - no content found''
      else case set_step_time stats TEXT_EXTRACTION of
             Inl e \<Rightarrow> Failed_with e
           | Inr stats' \<Rightarrow> Done (documents, stats'))"

text \<open>Step 2, text extraction: the texts of the documents to split.\<close>

definition extract_documents ::
  "processor_env \<Rightarrow> string option \<Rightarrow> string option \<Rightarrow> processing_stats \<Rightarrow>
   (string list \<times> processing_stats) step_result" where
  "extract_documents env file_path text_content stats =
     (case file_path of
        Some path \<Rightarrow>
          if path \<noteq> [] then
            (let file_ext = str_lower (splitext_ext path)
             in if file_ext = ''.pdf'' then
                  (case extract_text_from_pdf env path of
                     None \<Rightarrow> Failed_with ''PDF extraction failed - empty result''
                   | Some text \<Rightarrow>
                       if text = [] then Failed_with ''PDF extraction failed - empty result''
                       else validate_extraction stats [text])
                else if file_ext = ''.txt'' then
                  (case read_text env path of
                     Inl e \<Rightarrow> Failed_with e
                   | Inr text \<Rightarrow>
                       if text = [] then Failed_with ''Text file is empty''
                       else validate_extraction stats [text])
                else
                  (case load_data env path of
                     Inl e \<Rightarrow> Failed_with e
                   | Inr documents \<Rightarrow> validate_extraction stats documents))
          else if truthy text_content
          then validate_extraction stats [case text_content of Some t \<Rightarrow> t | None \<Rightarrow> []]
          else Failed_with ''No file path or text content provided''
      | None \<Rightarrow>
          if truthy text_content
          then validate_extraction stats [case text_content of Some t \<Rightarrow> t | None \<Rightarrow> []]
          else Failed_with ''No file path or text content provided'')"

text \<open>Step 3, chunking.\<close>

definition chunk_documents ::
  "processor_env \<Rightarrow> string list \<Rightarrow> processing_stats \<Rightarrow> (string list \<times> processing_stats) step_result" where
  "chunk_documents env documents stats =
     (case get_nodes_from_documents env documents of
        Inl e \<Rightarrow> Failed_with e
      | Inr nodes \<Rightarrow>
          if nodes = [] then Failed_with ''Chunking failed - no chunks created''
          else case set_step_time stats CHUNKING of
                 Inl e \<Rightarrow> Failed_with e
               | Inr stats' \<Rightarrow> Done (nodes, stats'))"

text \<open>Step 4, embedding.\<close>

definition embed_nodes ::
  "processor_env \<Rightarrow> string list \<Rightarrow> processing_stats \<Rightarrow>
   (component list list \<times> processing_stats) step_result" where
  "embed_nodes env nodes stats =
     (case get_text_embedding_batch env nodes of
        Inl e \<Rightarrow> Failed_with e
      | Inr embeddings \<Rightarrow>
          if length embeddings \<noteq> length nodes
          then Failed_with (''Embedding mismatch - got '' @ str_nat (length embeddings) @
                            '' embeddings for '' @ str_nat (length nodes) @ '' chunks'')
          else case set_step_time stats EMBEDDING of
                 Inl e \<Rightarrow> Failed_with e
               | Inr stats' \<Rightarrow> Done (embeddings, stats'))"

text \<open>
  The dictionary built for chunk \<open>i\<close> in step 5. The metadata of the node itself, which
  \<^verbatim>\<open>chunk_metadata.update(node.metadata)\<close> merges in, is not part of the model.
\<close>

definition make_chunk ::
  "processor_env \<Rightarrow> string \<Rightarrow> (string \<times> string) list \<Rightarrow> nat \<Rightarrow> nat \<Rightarrow> string \<times> component list \<Rightarrow> row" where
  "make_chunk env document_id base_metadata total_chunks i ne =
     (let chunk_id = uuid4 env i;
          chunk_text = fst ne;
          chunk_metadata =
            dict_set (dict_set (dict_set base_metadata ''chunk_index'' (str_nat i))
                        ''total_chunks'' (str_nat total_chunks)) ''content'' chunk_text
      in \<lparr>row_id = chunk_id, row_document_id = document_id, row_chunk_id = chunk_id,
          row_text = chunk_text, row_metadata = dumps env chunk_metadata,
          row_embedding = snd ne\<rparr>)"

definition chunk_data_of :: "row \<Rightarrow> chunk_data" where
  "chunk_data_of r =
     \<lparr>cd_id = Some (row_id r), cd_document_id = Some (row_document_id r),
      cd_chunk_id = Some (row_chunk_id r), cd_text = Some (row_text r),
      cd_embedding = Some (row_embedding r), cd_metadata = Some (MetaStr (row_metadata r))\<rparr>"

text \<open>
  Step 5, storage: all the chunks are handed to the vector database, and all of them are
  returned, whatever identifiers the database reports.
\<close>

definition store_chunks ::
  "processor_env \<Rightarrow> world \<Rightarrow> string \<Rightarrow> (string \<times> string) list \<Rightarrow> string list \<Rightarrow>
   component list list \<Rightarrow> processing_stats \<Rightarrow> (row list \<times> processing_stats) step_result \<times> world" where
  "store_chunks env w document_id base_metadata nodes embeddings stats =
     (let chunks_for_insertion =
            map (\<lambda>(i, ne). make_chunk env document_id base_metadata (length nodes) i ne)
              (enumerate 0 (zip nodes embeddings))
      in case vdb_insert_embeddings (vector_env env) (vector_db w)
                (map chunk_data_of chunks_for_insertion) of
           (Inl e, v) \<Rightarrow> (Failed_with e, w\<lparr>vector_db := v\<rparr>)
         | (Inr ids, v) \<Rightarrow>
             (case set_step_time stats STORAGE of
                Inl e \<Rightarrow> (Failed_with e, w\<lparr>vector_db := v\<rparr>)
              | Inr stats' \<Rightarrow> (Done (chunks_for_insertion, stats'), w\<lparr>vector_db := v\<rparr>)))"

text \<open>A step that fails: it is marked as failed with the message, and the method returns \<^verbatim>\<open>[]\<close>.\<close>

definition fail_step ::
  "world \<Rightarrow> string \<Rightarrow> string \<Rightarrow> processing_stats \<Rightarrow> string \<Rightarrow> row list \<times> processing_stats \<times> world" where
  "fail_step w document_id step stats msg =
     (case update_processing_status w document_id step FAILED stats (Some msg) of
        (stats', w') \<Rightarrow> ([], stats', w'))"

text \<open>
  \<^verbatim>\<open>_process_content\<close>: steps 2 to 5 in sequence. Every exception of a step is caught
  by the step, so the method always returns a list, empty after any failure. Without a
  \<^verbatim>\<open>processing_stats\<close> argument it starts from \<^verbatim>\<open>{"steps": {}}\<close>, a dictionary with no
  \<^verbatim>\<open>"stepTimes"\<close>.
\<close>

definition process_content ::
  "processor_env \<Rightarrow> world \<Rightarrow> string \<Rightarrow> (string \<times> string) list \<Rightarrow> string option \<Rightarrow>
   string option \<Rightarrow> processing_stats option \<Rightarrow> row list \<times> processing_stats \<times> world" where
  "process_content env w document_id base_metadata file_path text_content processing_stats =
     (let base = (if base_metadata = [] then [(''document_id'', document_id)] else base_metadata);
          stats0 = (case processing_stats of
                      None \<Rightarrow> \<lparr>ps_steps = [], ps_stepTimes = None, ps_chunkCount = None\<rparr>
                    | Some st \<Rightarrow> st)
      in case update_processing_status w document_id TEXT_EXTRACTION IN_PROGRESS stats0 None of
        (st1, w1) \<Rightarrow>
          (case extract_documents env file_path text_content st1 of
             Failed_with msg \<Rightarrow> fail_step w1 document_id TEXT_EXTRACTION st1 msg
           | Done (documents, st2) \<Rightarrow>
               (case update_processing_status w1 document_id TEXT_EXTRACTION COMPLETED st2 None of
                  (st3, w3) \<Rightarrow>
               (case update_processing_status w3 document_id CHUNKING IN_PROGRESS st3 None of
                  (st4, w4) \<Rightarrow>
               (case chunk_documents env documents st4 of
                  Failed_with msg \<Rightarrow> fail_step w4 document_id CHUNKING st4 msg
                | Done (nodes, st5) \<Rightarrow>
               (case update_processing_status w4 document_id CHUNKING COMPLETED st5 None of
                  (st6, w6) \<Rightarrow>
               (case update_processing_status w6 document_id EMBEDDING IN_PROGRESS st6 None of
                  (st7, w7) \<Rightarrow>
               (case embed_nodes env nodes st7 of
                  Failed_with msg \<Rightarrow> fail_step w7 document_id EMBEDDING st7 msg
                | Done (embeddings, st8) \<Rightarrow>
               (case update_processing_status w7 document_id EMBEDDING COMPLETED st8 None of
                  (st9, w9) \<Rightarrow>
               (case update_processing_status w9 document_id STORAGE IN_PROGRESS st9 None of
                  (st10, w10) \<Rightarrow>
               (case store_chunks env w10 document_id base nodes embeddings st10 of
                  (Failed_with msg, w11) \<Rightarrow> fail_step w11 document_id STORAGE st10 msg
                | (Done (chunks, st11), w11) \<Rightarrow>
               (case update_processing_status w11 document_id STORAGE COMPLETED st11 None of
                  (st12, w12) \<Rightarrow> (chunks, st12, w12)))))))))))))"

subsection \<open>\<^verbatim>\<open>process_document\<close>\<close>

text \<open>
  Step 6, the \<^verbatim>\<open>finally\<close> clause around \<^verbatim>\<open>_process_content\<close>: the temporary file
  is unlinked if it exists, and the step is marked as completed, or as failed when the
  unlink raises.
\<close>

definition cleanup ::
  "processor_env \<Rightarrow> world \<Rightarrow> string \<Rightarrow> string \<Rightarrow> processing_stats \<Rightarrow> processing_stats \<times> world" where
  "cleanup env w document_id local_file_path stats =
     (case update_processing_status w document_id CLEANUP IN_PROGRESS stats None of
        (st1, w1) \<Rightarrow>
          if local_file_path \<in> scratch w1 then
            (case unlink_fails env local_file_path of
               Some e \<Rightarrow> update_processing_status w1 document_id CLEANUP FAILED st1 (Some e)
             | None \<Rightarrow>
                 update_processing_status (w1\<lparr>scratch := scratch w1 - {local_file_path}\<rparr>)
                   document_id CLEANUP COMPLETED st1 None)
          else update_processing_status w1 document_id CLEANUP COMPLETED st1 None)"

text \<open>The outer \<^verbatim>\<open>except\<close> clause of \<^verbatim>\<open>process_document\<close>.\<close>

definition process_document_except ::
  "world \<Rightarrow> string \<Rightarrow> exn \<Rightarrow> processing_stats \<Rightarrow> process_result \<times> world" where
  "process_document_except w document_id e stats =
     (ErrorResult e, update_document_status w document_id ''failed'' (Some e) (Some stats))"

text \<open>
  Lines 143 to 178: no chunks means failure; otherwise the document is marked as
  completed with the number of chunks and their identifiers.
\<close>

definition finish_processing ::
  "world \<Rightarrow> string \<Rightarrow> row list \<Rightarrow> processing_stats \<Rightarrow> process_result \<times> world" where
  "finish_processing w document_id chunks stats =
     (if chunks = [] then
        (ErrorResult ''No chunks created'',
         update_document_status w document_id ''failed'' (Some ''No chunks created'') (Some stats))
      else
        (let stats' = stats\<lparr>ps_chunkCount := Some (length chunks)\<rparr>
         in case update_document w document_id
                   (\<lambda>d. d\<lparr>processingStatus := Some ''completed'',
                          chunkCount := Some (length chunks),
                          vectorIds := Some (map row_id chunks),
                          processingStats := Some (PipelineStats stats'),
                          error := None\<rparr>) of
              Inl e \<Rightarrow> process_document_except w document_id e stats'
            | Inr w' \<Rightarrow> (ResultData (length chunks) (map row_id chunks) stats', w')))"

text \<open>The branch of \<^verbatim>\<open>process_document\<close> for a document stored as a file (lines 98 to 131).\<close>

definition process_file ::
  "processor_env \<Rightarrow> world \<Rightarrow> string \<Rightarrow> (string \<times> string) list \<Rightarrow> string \<Rightarrow>
   processing_stats \<Rightarrow> process_result \<times> world" where
  "process_file env w document_id base_metadata storage_path stats =
     (case update_processing_status w document_id DOWNLOAD IN_PROGRESS stats None of
        (st1, w1) \<Rightarrow>
          (case download_file env w1 storage_path of
             (Inl download_err, w2) \<Rightarrow>
               (case update_processing_status w2 document_id DOWNLOAD FAILED st1 (Some download_err) of
                  (st2, w3) \<Rightarrow>
                    (ErrorResult (''Failed to download file: '' @ download_err),
                     update_document_status w3 document_id ''failed''
                       (Some (''Failed to download file: '' @ download_err)) (Some st2)))
           | (Inr local_file_path, w2) \<Rightarrow>
               (case set_step_time st1 DOWNLOAD of
                  Inl e \<Rightarrow>
                    (case update_processing_status w2 document_id DOWNLOAD FAILED st1 (Some e) of
                       (st2, w3) \<Rightarrow>
                         (ErrorResult (''Failed to download file: '' @ e),
                          update_document_status w3 document_id ''failed''
                            (Some (''Failed to download file: '' @ e)) (Some st2)))
                | Inr st2 \<Rightarrow>
                    (case update_processing_status w2 document_id DOWNLOAD COMPLETED st2 None of
                       (st3, w3) \<Rightarrow>
                    (case process_content env w3 document_id base_metadata (Some local_file_path)
                            None (Some st3) of
                       (chunks, st4, w4) \<Rightarrow>
                    (case cleanup env w4 document_id local_file_path st4 of
                       (st5, w5) \<Rightarrow> finish_processing w5 document_id chunks st5))))))"

text \<open>
  \<^verbatim>\<open>process_document\<close>. The metadata handed to the chunks holds the document's id and
  name (its creation time is left out, like every timestamp). The branch for a missing
  document is kept although the first write already raises for it.
\<close>

definition process_document :: "processor_env \<Rightarrow> world \<Rightarrow> string \<Rightarrow> process_result \<times> world" where
  "process_document env w document_id =
     (let processing_stats = \<lparr>ps_steps = [], ps_stepTimes = Some [], ps_chunkCount = None\<rparr>
      in case update_document w document_id
                (\<lambda>d. d\<lparr>processingStatus := Some ''processing'',
                       processingStats := Some (PipelineStats processing_stats)\<rparr>) of
           Inl e \<Rightarrow> process_document_except w document_id e processing_stats
         | Inr w1 \<Rightarrow>
             (case get_document w1 document_id of
                None \<Rightarrow>
                  (ErrorResult ''Document not found'',
                   update_document_status w1 document_id ''failed'' (Some ''Document not found'')
                     (Some processing_stats))
              | Some document_data \<Rightarrow>
                  (let base_metadata =
                         [(''document_id'', document_id),
                          (''name'', case doc_name document_data of None \<Rightarrow> ''Untitled'' | Some n \<Rightarrow> n)]
                   in if truthy (storageUri document_data) then
                        process_file env w1 document_id base_metadata
                          (case storageUri document_data of Some p \<Rightarrow> p | None \<Rightarrow> [])
                          processing_stats
                      else if \<not> truthy (content document_data) then
                        (ErrorResult ''Document has no content or file'',
                         update_document_status w1 document_id ''failed''
                           (Some ''Document has no content or file'') (Some processing_stats))
                      else
                        (case process_content env w1 document_id base_metadata None
                                (content document_data) (Some processing_stats) of
                           (chunks, st, w2) \<Rightarrow> finish_processing w2 document_id chunks st))))"

subsection \<open>\<^verbatim>\<open>delete_document\<close>\<close>

definition delete_document :: "processor_env \<Rightarrow> world \<Rightarrow> string \<Rightarrow> (exn + bool) \<times> world" where
  "delete_document env w document_id =
     (case get_document w document_id of
        None \<Rightarrow> (Inr False, w)
      | Some document_data \<Rightarrow>
          (case vdb_delete_by_document_id (vector_env env) (vector_db w) document_id of
             (Inl e, v) \<Rightarrow> (Inl e, w\<lparr>vector_db := v\<rparr>)
           | (Inr deleted, v) \<Rightarrow>
               (let w1 = w\<lparr>vector_db := v\<rparr>
                in if truthy (storageUri document_data) then
                     (case delete_file env w1 (case storageUri document_data of Some p \<Rightarrow> p | None \<Rightarrow> []) of
                        (Inl e, w2) \<Rightarrow> (Inl e, w2)
                      | (Inr b, w2) \<Rightarrow> (Inr True, firestore_delete_document w2 document_id))
                   else (Inr True, firestore_delete_document w1 document_id))))"

subsection \<open>\<^verbatim>\<open>process_document_immediately\<close>\<close>

text \<open>How one pass through the body of the retry loop ends.\<close>

datatype attempt_result = Continue | Return bool | Raise exn

definition missing_fields :: "document \<Rightarrow> string list" where
  "missing_fields d =
     (if storageUri d = None then [''storageUri''] else []) @
     (if doc_id d = None then [''id''] else []) @
     (if processingStatus d = None then [''processingStatus''] else [])"

text \<open>Lines 519 to 523: \<^verbatim>\<open>os.unlink\<close> in a \<^verbatim>\<open>try\<close> whose handler only logs.\<close>

definition unlink_quietly :: "processor_env \<Rightarrow> world \<Rightarrow> string \<Rightarrow> world" where
  "unlink_quietly env w local_file_path =
     (case unlink_fails env local_file_path of
        Some e \<Rightarrow> w
      | None \<Rightarrow>
          if local_file_path \<in> scratch w
          then w\<lparr>scratch := scratch w - {local_file_path}\<rparr>
          else w)"

text \<open>
  The \<^verbatim>\<open>try\<close> block of the loop body (lines 480 to 555). The three attempts of the
  final status write meet the same store, so one write stands for them.
\<close>

definition immediate_try ::
  "processor_env \<Rightarrow> world \<Rightarrow> string \<Rightarrow> nat \<Rightarrow> nat \<Rightarrow> attempt_result \<times> world" where
  "immediate_try env w document_id max_retries' attempt =
     (case get_document w document_id of
        None \<Rightarrow>
          if attempt < max_retries' - 1 then (Continue, w)
          else (Raise (''Document '' @ document_id @ '' not found after '' @ str_nat max_retries' @
                       '' attempts''), w)
      | Some document_data \<Rightarrow>
          if missing_fields document_data \<noteq> [] then
            (Raise (''Document '' @ document_id @ '' is missing required fields: '' @
                    str_join '', '' (missing_fields document_data)), w)
          else
            (case download_file env w (case storageUri document_data of Some p \<Rightarrow> p | None \<Rightarrow> []) of
               (Inl e, w1) \<Rightarrow> (Raise e, w1)
             | (Inr local_file_path, w1) \<Rightarrow>
                 (case process_content env w1 document_id [] (Some local_file_path) None None of
                    (chunks, st, w2) \<Rightarrow>
                      (let w3 = unlink_quietly env w2 local_file_path
                       in case update_document w3 document_id
                                 (\<lambda>d. d\<lparr>processingStatus := Some ''completed'',
                                        chunkCount := Some (length chunks),
                                        processingStats := Some (ImmediateStats (length chunks))\<rparr>) of
                            Inl e \<Rightarrow> (Raise e, w3)
                          | Inr w4 \<Rightarrow> (Return True, w4)))))"

text \<open>The loop body with its \<^verbatim>\<open>except\<close> clause (lines 557 to 581).\<close>

definition immediate_attempt ::
  "processor_env \<Rightarrow> world \<Rightarrow> string \<Rightarrow> nat \<Rightarrow> nat \<Rightarrow> attempt_result \<times> world" where
  "immediate_attempt env w document_id max_retries' attempt =
     (case immediate_try env w document_id max_retries' attempt of
        (Raise e, w1) \<Rightarrow>
          if attempt < max_retries' - 1 then (Continue, w1)
          else
            (let error_msg = ''Error processing document '' @ document_id @ '': '' @ e
             in case update_document w1 document_id
                       (\<lambda>d. d\<lparr>processingStatus := Some ''failed'', error := Some error_msg,
                              processingStats := Some (FailureStats (attempt + 1) e)\<rparr>) of
                  Inl update_error \<Rightarrow> (Raise e, w1)
                | Inr w2 \<Rightarrow> (Raise e, w2))
      | (r, w1) \<Rightarrow> (r, w1))"

fun immediate_attempts ::
  "processor_env \<Rightarrow> world \<Rightarrow> string \<Rightarrow> nat \<Rightarrow> nat list \<Rightarrow> (exn + bool) \<times> world" where
  "immediate_attempts env w document_id max_retries' [] = (Inr False, w)"
| "immediate_attempts env w document_id max_retries' (attempt # rest) =
     (case immediate_attempt env w document_id max_retries' attempt of
        (Continue, w1) \<Rightarrow> immediate_attempts env w1 document_id max_retries' rest
      | (Return b, w1) \<Rightarrow> (Inr b, w1)
      | (Raise e, w1) \<Rightarrow> (Inl e, w1))"

definition process_document_immediately ::
  "processor_env \<Rightarrow> world \<Rightarrow> string \<Rightarrow> nat \<Rightarrow> (exn + bool) \<times> world" where
  "process_document_immediately env w document_id max_retries' =
     immediate_attempts env w document_id max_retries' [0..<max_retries']"

section \<open>Reference definitions and example inputs\<close>

subsection \<open>Validity of a chunk record, in the words of the specification\<close>

text \<open>
  A record is valid when the required fields are present, the embedding has the
  dimension of the store and none of its components is NaN.
\<close>

definition valid_record :: "nat \<Rightarrow> chunk_data \<Rightarrow> bool" where
  "valid_record dims data =
     (cd_id data \<noteq> None \<and> cd_document_id data \<noteq> None \<and> cd_chunk_id data \<noteq> None \<and>
      cd_text data \<noteq> None \<and>
      (case cd_embedding data of
         None \<Rightarrow> False
       | Some emb \<Rightarrow> length emb = dims \<and> NaN \<notin> set emb))"

subsection \<open>Retrieval parameters, in the words of the specification\<close>

definition spec_keywords :: "string list" where
  "spec_keywords =
     [''why'', ''how'', ''explain'', ''describe'', ''compare'', ''contrast'', ''analyze'',
      ''relationship'', ''difference'']"

text \<open>A query contains a keyword when one of its words, in lower case, is a keyword.\<close>

definition contains_keyword :: "string \<Rightarrow> bool" where
  "contains_keyword q = list_ex (\<lambda>w. str_lower w \<in> set spec_keywords) (str_split q)"

definition spec_parameters :: "string \<Rightarrow> nat \<times> real" where
  "spec_parameters q =
     (let n = length (str_split q)
      in if 16 \<le> n \<or> contains_keyword q then (8, 0.5)
         else if 9 \<le> n \<and> n \<le> 15 then (5, 0.55)
         else (3, 0.6))"

subsection \<open>A batch with one embedding of the wrong dimension\<close>

definition c2_good :: chunk_data where
  "c2_good =
     \<lparr>cd_id = Some ''a'', cd_document_id = Some ''d1'', cd_chunk_id = Some ''a'',
      cd_text = Some ''alpha'', cd_embedding = Some [Val 0.1, Val 0.2, Val 0.3],
      cd_metadata = None\<rparr>"

definition c2_bad :: chunk_data where
  "c2_bad =
     \<lparr>cd_id = Some ''b'', cd_document_id = Some ''d1'', cd_chunk_id = Some ''b'',
      cd_text = Some ''beta'', cd_embedding = Some [Val 0.1, Val 0.2],
      cd_metadata = None\<rparr>"

text \<open>Two stores of dimension 3 with an empty collection, one for each backend.\<close>

definition c2_qdrant :: qdrant where
  "c2_qdrant =
     \<lparr>q_collection_name = ''document_embeddings'', q_dimension = 3,
      q_server = [''document_embeddings'' \<mapsto>
                    \<lparr>qc_size = 3, qc_distance = ''Cosine'', qc_points = []\<rparr>]\<rparr>"

definition c2_milvus :: milvus where
  "c2_milvus =
     \<lparr>collection_name = ''document_embeddings'', dimension = 3,
      connection_established = True, max_retries = 3,
      server = [''document_embeddings'' \<mapsto> new_collection 3]\<rparr>"

subsection \<open>Environments in which every external call succeeds\<close>

definition ok_milvus_env :: milvus_env where
  "ok_milvus_env =
     \<lparr>connect_fails = (\<lambda>attempt. None), utility_fails = None,
      insert_fails = (\<lambda>attempt. None),
      collection_search = (\<lambda>rows q limit. Inr []),
      collection_delete_fails = None,
      json_dumps = (\<lambda>kv. ''{}''),
      recursion_limit = 1000\<rparr>"

definition ok_qdrant_env :: qdrant_env where
  "ok_qdrant_env =
     \<lparr>get_collections_fails = None, upsert_fails = (\<lambda>points. None),
      client_search = (\<lambda>points q limit. Inr []),
      client_delete_fails = None,
      json_loads = (\<lambda>s. Inl ''Expecting value'')\<rparr>"

subsection \<open>A Qdrant server that already holds the collection, with one point in it\<close>

definition c3_point :: point where
  "c3_point =
     \<lparr>pt_id = Some ''a'', pt_vector = Some [Val 0.1, Val 0.2, Val 0.3],
      pt_payload = [(''document_id'', Some ''d1''), (''chunk_id'', Some ''a''),
                    (''text'', Some ''alpha'')]\<rparr>"

definition c3_server :: "string \<rightharpoonup> qdrant_collection" where
  "c3_server =
     [''document_embeddings'' \<mapsto>
        \<lparr>qc_size = 3, qc_distance = ''Cosine'', qc_points = [c3_point]\<rparr>]"

subsection \<open>A corpus whose only match scores 0.5\<close>

definition c4_query :: "component list" where
  "c4_query = [Val 1, Val 0, Val 0]"

definition c4_qdrant_hit :: qdrant_hit where
  "c4_qdrant_hit =
     \<lparr>qh_score = Some 0.5,
      qh_payload = Some [(''document_id'', Some ''d1''), (''chunk_id'', Some ''a''),
                         (''text'', Some ''alpha'')]\<rparr>"

definition c4_qdrant_env :: qdrant_env where
  "c4_qdrant_env = ok_qdrant_env\<lparr>client_search := (\<lambda>points q limit. Inr [c4_qdrant_hit])\<rparr>"

definition c4_qdrant :: qdrant where
  "c4_qdrant =
     \<lparr>q_collection_name = ''document_embeddings'', q_dimension = 3, q_server = c3_server\<rparr>"

definition c4_milvus_hit :: milvus_hit where
  "c4_milvus_hit =
     \<lparr>hit_document_id = Some ''d1'', hit_chunk_id = Some ''a'', hit_text = Some ''alpha'',
      hit_metadata = Some ''{}'', hit_score = 0.5\<rparr>"

definition c4_milvus_env :: milvus_env where
  "c4_milvus_env = ok_milvus_env\<lparr>collection_search := (\<lambda>rows q limit. Inr [c4_milvus_hit])\<rparr>"

subsection \<open>A query engine whose LLM provider answers with an empty message\<close>

definition c5_cfg :: app_settings where
  "c5_cfg =
     \<lparr>LLM_MODEL = ''mixtral-8x7b-32768'', LLM_MAX_TOKENS = 2048, LLM_TEMPERATURE = 0.7,
      EMBEDDING_MODEL = ''BAAI/bge-small-en-v1.5''\<rparr>"

definition c5_env :: query_env where
  "c5_env =
     \<lparr>get_chatbot = (\<lambda>chatbot_id. Inr None),
      llm_chat = (\<lambda>l messages. Inr (MessageContent (Some ''''))),
      create_vector_store_for_documents = (\<lambda>document_ids. None),
      engine_query = (\<lambda>l k c p q. Inl ''no index'')\<rparr>"

subsection \<open>A query engine whose retrieval finds one chunk\<close>

definition c9_response :: engine_response where
  "c9_response =
     \<lparr>response_str = ''Paris is the capital.'',
      response_source_nodes =
        Some [\<lparr>sn_has_metadata = True, sn_document_id = Some ''d1'', sn_chunk_id = Some ''a'',
               sn_score = Some 0.8\<rparr>]\<rparr>"

definition c9_env :: query_env where
  "c9_env =
     \<lparr>get_chatbot = (\<lambda>chatbot_id. Inr None),
      llm_chat = (\<lambda>l messages. Inr (MessageContent (Some ''Hello.''))),
      create_vector_store_for_documents = (\<lambda>document_ids. None),
      engine_query = (\<lambda>l k c p q. Inr c9_response)\<rparr>"

subsection \<open>The response text of the retrieval path\<close>

text \<open>The text the token estimate counts: the engine's response, or the stand-in when it is blank.\<close>

definition nonblank_response :: "engine_response \<Rightarrow> string" where
  "nonblank_response resp =
     (if str_strip (response_str resp) = [] then blank_response_text else response_str resp)"

subsection \<open>A text document uploaded as a file, in an environment where every step succeeds\<close>

definition c1_env :: processor_env where
  "c1_env =
     \<lparr>vector_env = \<lparr>zilliz_env = ok_milvus_env, qdrant_env = ok_qdrant_env\<rparr>,
      download_to = (\<lambda>source_path. Inr ''/tmp/tmpab12cd.txt''),
      blob_delete_fails = (\<lambda>file_path. None),
      unlink_fails = (\<lambda>path. None),
      extract_text_from_pdf = (\<lambda>path. None),
      read_text = (\<lambda>path. Inr ''Paris is the capital of France.''),
      load_data = (\<lambda>path. Inr []),
      get_nodes_from_documents = (\<lambda>documents. Inr documents),
      get_text_embedding_batch = (\<lambda>texts. Inr (map (\<lambda>t. [Val 0.1, Val 0.2, Val 0.3]) texts)),
      uuid4 = (\<lambda>i. ''chunk-'' @ str_nat i),
      dumps = (\<lambda>kv. ''{}'')\<rparr>"

text \<open>The document as the reindex endpoint leaves it before it calls \<^verbatim>\<open>process_document_immediately\<close>.\<close>

definition c1_document :: document where
  "c1_document =
     \<lparr>doc_id = Some ''d1'', doc_name = Some ''notes'',
      storageUri = Some ''documents/u1/d1/notes.txt'', content = None,
      processingStatus = Some ''processing'', chunkCount = None, vectorIds = None,
      error = None, processingStats = None\<rparr>"

definition c1_world :: world where
  "c1_world =
     \<lparr>firestore = [''d1'' \<mapsto> c1_document],
      bucket = {''documents/u1/d1/notes.txt''},
      scratch = {},
      vector_db = Qdrant c2_qdrant\<rparr>"

subsection \<open>A document whose file is no longer in the bucket\<close>

definition c7_world :: world where
  "c7_world =
     \<lparr>firestore = [''d1'' \<mapsto> c1_document\<lparr>processingStatus := Some ''completed'',
                                           chunkCount := Some 1, vectorIds := Some [''a'']\<rparr>],
      bucket = {},
      scratch = {},
      vector_db = Qdrant c4_qdrant\<rparr>"

subsection \<open>Observations on the state of the processor\<close>

text \<open>The local files, the blobs and the identifiers of the stored documents.\<close>

definition files_of :: "world \<Rightarrow> string set \<times> string set \<times> string set" where
  "files_of w = (scratch w, bucket w, dom (firestore w))"

text \<open>The status recorded for a step in the \<^verbatim>\<open>processingStats\<close> of a stored document.\<close>

definition step_status :: "world \<Rightarrow> string \<Rightarrow> string \<Rightarrow> string option" where
  "step_status w document_id step =
     (case firestore w document_id of
        None \<Rightarrow> None
      | Some d \<Rightarrow>
          (case processingStats d of
             Some (PipelineStats st) \<Rightarrow> map_option se_status (map_of (ps_steps st) step)
           | _ \<Rightarrow> None))"

text \<open>
  The invariant of the document record, in the words of the specification: completed
  means a positive chunk count and as many vector ids; failed means an error message.
\<close>

definition record_invariant :: "document \<Rightarrow> bool" where
  "record_invariant d =
     ((processingStatus d \<noteq> Some ''completed'' \<or>
         (case (chunkCount d, vectorIds d) of
            (Some n, Some ids) \<Rightarrow> 0 < n \<and> length ids = n
          | _ \<Rightarrow> False))
      \<and> (processingStatus d \<noteq> Some ''failed'' \<or> error d \<noteq> None))"

text \<open>
  A stored document that has reached a final state in keeping with the invariant, with
  the given step entries in its pipeline statistics.
\<close>

definition settled :: "world \<Rightarrow> string \<Rightarrow> (string \<times> step_entry) list \<Rightarrow> bool" where
  "settled w document_id steps \<longleftrightarrow>
     (\<exists>d st. firestore w document_id = Some d \<and> processingStats d = Some (PipelineStats st) \<and>
        ps_steps st = steps \<and> record_invariant d \<and>
        (processingStatus d = Some ''completed'' \<or> processingStatus d = Some ''failed''))"

text \<open>A stored document marked as completed with no chunks, against the invariant.\<close>

definition completed_empty :: "world \<Rightarrow> string \<Rightarrow> bool" where
  "completed_empty w document_id \<longleftrightarrow>
     (\<exists>d. firestore w document_id = Some d \<and> processingStatus d = Some ''completed'' \<and>
        chunkCount d = Some 0 \<and> \<not> record_invariant d)"

text \<open>The points a Qdrant backend holds in a collection.\<close>

definition qdrant_points :: "vector_db \<Rightarrow> string \<Rightarrow> point list option" where
  "qdrant_points v name =
     (case v of
        Qdrant q \<Rightarrow> map_option qc_points (q_server q name)
      | Zilliz m \<Rightarrow> None)"

subsection \<open>The cutoff a relaxing search ends with\<close>

text \<open>The floats \<^verbatim>\<open>0.6\<close>, \<^verbatim>\<open>0.8\<close> and \<^verbatim>\<open>1e16\<close>.\<close>

definition float_0_6 :: binary64 where
  "float_0_6 = Binary64 5404319552844595 (- 53)"

definition float_0_8 :: binary64 where
  "float_0_8 = Binary64 3602879701896397 (- 52)"

definition float_1e16 :: binary64 where
  "float_1e16 = Binary64 10000000000000000 0"

text \<open>
  The loop a search with relaxation amounts to, over the hits of one query: while no hit
  reaches the cutoff and the cutoff is above 0.4, lower it by 0.2; \<open>None\<close> when this
  takes more than \<open>depth\<close> rounds.
\<close>

fun effective_cutoff :: "nat \<Rightarrow> milvus_hit list \<Rightarrow> binary64 \<Rightarrow> binary64 option" where
  "effective_cutoff depth hits cutoff =
     (if depth = 0 then None
      else if filter (\<lambda>hit. \<not> hit_score hit < value_of cutoff) hits = [] \<and>
              value_of cutoff > value_of float_0_4
      then effective_cutoff (depth - 1) hits (float_sub cutoff float_0_2)
      else Some cutoff)"

declare effective_cutoff.simps [simp del]

section \<open>Properties of the vector store\<close>

subsection \<open>Validation on insert\<close>

lemma validate_one_valid: "validate_one env dims data \<noteq> None \<longleftrightarrow> valid_record dims data"
  by (auto simp: validate_one_def valid_record_def list_ex_iff Let_def split: option.splits)

lemma validate_one_fields:
  assumes "validate_one env dims data = Some r"
  shows "cd_id data = Some (row_id r)"
    and "cd_document_id data = Some (row_document_id r)"
    and "cd_chunk_id data = Some (row_chunk_id r)"
    and "cd_embedding data = Some (row_embedding r)"
    and "\<exists>t. cd_text data = Some t \<and> row_text r = take 65000 t"
    and "length (row_metadata r) \<le> 65000"
  using assms
  by (auto simp: validate_one_def Let_def split: option.splits if_splits metadata.splits)

text \<open>
  On the Milvus backend the identifiers of the validated rows are the identifiers of the
  valid records of the batch, in their order.
\<close>

lemma validate_embeddings_ids:
  "map (Some \<circ> row_id) (validate_embeddings env dims xs) = map cd_id (filter (valid_record dims) xs)"
proof (induction xs)
  case Nil
  then show ?case by simp
next
  case (Cons x xs)
  show ?case
  proof (cases "validate_one env dims x")
    case None
    then have "\<not> valid_record dims x"
      using validate_one_valid [of env dims x] by simp
    with None Cons show ?thesis by simp
  next
    case (Some r)
    then have "valid_record dims x"
      using validate_one_valid [of env dims x] by simp
    with Some Cons validate_one_fields(1) [OF Some] show ?thesis by simp
  qed
qed

text \<open>
  A connected Milvus store whose collection exists and whose server accepts the first
  insertion returns the identifiers of the valid records and appends exactly the
  validated rows.
\<close>

lemma milvus_insert_valid_subset:
  assumes "connection_established m"
    and "server m (collection_name m) = Some c"
    and "insert_fails env 0 = None"
    and "0 < max_retries m"
  shows "map Some (projr (fst (insert_embeddings env m xs))) = map cd_id (filter (valid_record (dimension m)) xs)"
    and "isl (fst (insert_embeddings env m xs)) = False"
    and "map_option col_rows (server (snd (insert_embeddings env m xs)) (collection_name m)) =
         Some (col_rows c @ validate_embeddings env (dimension m) xs)"
proof -
  from assms(4) have upt: "[0..<max_retries m] = 0 # [1..<max_retries m]"
    by (simp add: upt_conv_Cons)
  have ids: "map Some (map row_id (validate_embeddings env (dimension m) xs)) =
             map cd_id (filter (valid_record (dimension m)) xs)"
    using validate_embeddings_ids [of env "dimension m" xs] by simp
  show "map Some (projr (fst (insert_embeddings env m xs))) = map cd_id (filter (valid_record (dimension m)) xs)"
    using assms(1-3) upt ids
    by (cases "validate_embeddings env (dimension m) xs = []")
       (auto simp: insert_embeddings_def reconnect_if_needed_def Let_def)
  show "isl (fst (insert_embeddings env m xs)) = False"
    using assms(1-3) upt
    by (auto simp: insert_embeddings_def reconnect_if_needed_def Let_def)
  show "map_option col_rows (server (snd (insert_embeddings env m xs)) (collection_name m)) =
         Some (col_rows c @ validate_embeddings env (dimension m) xs)"
    using assms(1-3) upt
    by (cases "validate_embeddings env (dimension m) xs = []")
       (auto simp: insert_embeddings_def reconnect_if_needed_def Let_def)
qed

lemma milvus_insert_wrong_dimension:
  "insert_fails env 0 = None \<Longrightarrow>
   fst (insert_embeddings env c2_milvus [c2_good, c2_bad]) = Inr [''a'']"
  by (simp add: insert_embeddings_def reconnect_if_needed_def c2_milvus_def c2_good_def
        c2_bad_def validate_one_def new_collection_def Let_def upt_conv_Cons)

text \<open>
  Claim C2. Every batch passed to insert is validated on both backends, only the valid
  records are inserted, and the identifiers returned are those of the valid records; a
  batch with one embedding of the wrong dimension loses exactly that record.

  On the Qdrant backend the batch of \<open>c2_good\<close> and \<open>c2_bad\<close> (an embedding of two
  components in a store of dimension 3) is sent to the server as it is: the call raises
  what the server raises, or returns both identifiers and stores both points. It never
  returns the one identifier of the valid record.
\<close>

theorem C2_qdrant_insert_skips_validation:
  "fst (QdrantDB_insert_embeddings env c2_qdrant [c2_good, c2_bad]) =
     (case upsert_fails env [make_point env c2_good, make_point env c2_bad] of
        Some e \<Rightarrow> Inl e
      | None \<Rightarrow> Inr [Some ''a'', Some ''b''])
   \<and> fst (QdrantDB_insert_embeddings env c2_qdrant [c2_good, c2_bad]) \<noteq> Inr [Some ''a'']
   \<and> map cd_id (filter (valid_record (q_dimension c2_qdrant)) [c2_good, c2_bad]) = [Some ''a'']"
  by (simp add: QdrantDB_insert_embeddings_def c2_qdrant_def c2_good_def c2_bad_def
        valid_record_def split: option.split)

subsection \<open>Initialization\<close>

lemma milvus_initialize_collection:
  assumes "connection_established m" and "utility_fails env = None"
  shows "fst (initialize_collection env m) = Inr True"
    and "server (snd (initialize_collection env m)) (collection_name m) =
           Some ((case server m (collection_name m) of
                    None \<Rightarrow> new_collection (dimension m)
                  | Some c \<Rightarrow> c)\<lparr>col_loaded := True\<rparr>)"
    and "n \<noteq> collection_name m \<Longrightarrow> server (snd (initialize_collection env m)) n = server m n"
    and "initialize_collection env (snd (initialize_collection env m)) = initialize_collection env m"
  using assms
  by (auto simp: initialize_collection_def Let_def split: option.splits)

lemma qdrant_init:
  assumes "get_collections_fails env = None"
  shows "fst (QdrantDB_init env name dims srv) = Inr ()"
    and "q_server (snd (QdrantDB_init env name dims srv)) name =
           Some \<lparr>qc_size = dims, qc_distance = ''Cosine'', qc_points = []\<rparr>"
    and "n \<noteq> name \<Longrightarrow> q_server (snd (QdrantDB_init env name dims srv)) n = srv n"
    and "QdrantDB_init env name dims (q_server (snd (QdrantDB_init env name dims srv))) =
         QdrantDB_init env name dims srv"
  using assms
  by (auto simp: QdrantDB_init_def Let_def split: option.splits)

text \<open>
  Claim C3, as stated: on both backends initialization leaves an existing collection and
  its stored records unchanged. On the Qdrant backend the constructor deletes the
  existing collection: the server of \<open>c3_server\<close> holds one point before and none after.
\<close>

theorem C3_qdrant_init_drops_records:
  "fst (QdrantDB_init ok_qdrant_env ''document_embeddings'' 3 c3_server) = Inr ()
   \<and> map_option qc_points (c3_server ''document_embeddings'') = Some [c3_point]
   \<and> map_option qc_points
       (q_server (snd (QdrantDB_init ok_qdrant_env ''document_embeddings'' 3 c3_server))
          ''document_embeddings'') = Some []
   \<and> q_server (snd (QdrantDB_init ok_qdrant_env ''document_embeddings'' 3 c3_server))
       ''document_embeddings'' \<noteq> c3_server ''document_embeddings''"
  by (simp add: QdrantDB_init_def ok_qdrant_env_def c3_server_def Let_def)

text \<open>
  Claim C3, amended. With the server reachable, \<^verbatim>\<open>MilvusDB.initialize_collection\<close> on a
  connected object creates a missing collection empty, with the configured dimension
  and a cosine index, and leaves an existing collection as it is, records and dimension
  included (it is only loaded); \<^verbatim>\<open>QdrantDB.__init__\<close> always ends with an empty
  collection of the configured dimension and cosine distance, whatever was stored under
  that name before. On both backends no other collection is touched and initializing
  twice gives the same result and state as initializing once.
\<close>

theorem C3_initialization_amended:
  assumes "connection_established m"
    and "utility_fails menv = None"
    and "get_collections_fails qenv = None"
  shows "fst (initialize_collection menv m) = Inr True
    \<and> (server m (collection_name m) = None \<longrightarrow>
         server (snd (initialize_collection menv m)) (collection_name m) =
           Some \<lparr>col_dim = dimension m, col_metric_type = ''COSINE'', col_index_type = ''HNSW'',
                 col_loaded = True, col_rows = []\<rparr>)
    \<and> (\<forall>c. server m (collection_name m) = Some c \<longrightarrow>
         server (snd (initialize_collection menv m)) (collection_name m) =
           Some (c\<lparr>col_loaded := True\<rparr>))
    \<and> (\<forall>n. n \<noteq> collection_name m \<longrightarrow> server (snd (initialize_collection menv m)) n = server m n)
    \<and> initialize_collection menv (snd (initialize_collection menv m)) = initialize_collection menv m
    \<and> fst (QdrantDB_init qenv name dims srv) = Inr ()
    \<and> q_server (snd (QdrantDB_init qenv name dims srv)) name =
         Some \<lparr>qc_size = dims, qc_distance = ''Cosine'', qc_points = []\<rparr>
    \<and> (\<forall>n. n \<noteq> name \<longrightarrow> q_server (snd (QdrantDB_init qenv name dims srv)) n = srv n)
    \<and> QdrantDB_init qenv name dims (q_server (snd (QdrantDB_init qenv name dims srv))) =
        QdrantDB_init qenv name dims srv"
proof -
  note mi = milvus_initialize_collection [OF assms(1,2)]
  note qi = qdrant_init [OF assms(3), where name = name and dims = dims and srv = srv]
  have created: "server m (collection_name m) = None \<longrightarrow>
         server (snd (initialize_collection menv m)) (collection_name m) =
           Some \<lparr>col_dim = dimension m, col_metric_type = ''COSINE'', col_index_type = ''HNSW'',
                 col_loaded = True, col_rows = []\<rparr>"
    using mi(2) by (simp add: new_collection_def)
  have kept: "\<forall>c. server m (collection_name m) = Some c \<longrightarrow>
         server (snd (initialize_collection menv m)) (collection_name m) =
           Some (c\<lparr>col_loaded := True\<rparr>)"
    using mi(2) by simp
  from mi(1) created kept mi(3) mi(4) qi(1) qi(2) qi(3) qi(4) show ?thesis
    by blast
qed

theorem C3_initialization_amended_witness:
  "connection_established c2_milvus \<and> utility_fails ok_milvus_env = None
   \<and> get_collections_fails ok_qdrant_env = None
   \<and> fst (initialize_collection ok_milvus_env c2_milvus) = Inr True
   \<and> server (snd (initialize_collection ok_milvus_env c2_milvus)) ''document_embeddings'' =
       Some ((new_collection 3)\<lparr>col_loaded := True\<rparr>)
   \<and> q_server (snd (QdrantDB_init ok_qdrant_env ''document_embeddings'' 3 c3_server))
       ''document_embeddings'' = Some \<lparr>qc_size = 3, qc_distance = ''Cosine'', qc_points = []\<rparr>"
proof -
  have h: "connection_established c2_milvus" "utility_fails ok_milvus_env = None"
    "get_collections_fails ok_qdrant_env = None"
    by (simp_all add: c2_milvus_def ok_milvus_env_def ok_qdrant_env_def)
  have c: "server c2_milvus (collection_name c2_milvus) = Some (new_collection 3)"
    "collection_name c2_milvus = ''document_embeddings''"
    by (simp_all add: c2_milvus_def)
  from C3_initialization_amended [OF h, where name = "''document_embeddings''" and dims = 3
      and srv = c3_server] h c
  show ?thesis
    by simp
qed

subsection \<open>Similarity search\<close>

(*SEARCH_LEMMAS*)

lemma filtered_hits_descending:
  "sorted_wrt (\<lambda>a b. hit_score b \<le> hit_score a) hits \<Longrightarrow>
   sorted_wrt (\<lambda>a b. hit_score b \<le> hit_score a) (filter P hits)"
  by (rule sorted_wrt_filter)

text \<open>
  Claim C4. On both backends a search that finds nothing at a cutoff above 0.4 is
  repeated with the cutoff lowered by 0.2, so that a search at cutoff 0.6 over a corpus
  whose only match scores 0.5 returns that match.

  \<^verbatim>\<open>QdrantDB.search_similar\<close> filters once and returns: on this corpus it returns the
  empty list.
\<close>

theorem C4_qdrant_search_does_not_relax:
  "QdrantDB_search_similar c4_qdrant_env c4_qdrant c4_query 3 0.6 = Inr []"
  by (simp add: QdrantDB_search_similar_def c4_qdrant_env_def ok_qdrant_env_def c4_qdrant_def
        c3_server_def c4_qdrant_hit_def below_cutoff_def)

section \<open>Properties of the query engine\<close>

subsection \<open>Complexity and retrieval parameters\<close>

lemma assess_query_complexity_cases:
  "assess_query_complexity q =
     (if 16 \<le> length (str_split q) \<or> contains_keyword q then ''high''
      else if 9 \<le> length (str_split q) \<and> length (str_split q) \<le> 15 then ''medium''
      else ''low'')"
  by (auto simp: assess_query_complexity_def complex_indicators_def contains_keyword_def
        spec_keywords_def Let_def)

lemma retrieval_parameters_spec:
  "retrieval_parameters (assess_query_complexity q) = spec_parameters q"
  by (auto simp: assess_query_complexity_cases retrieval_parameters_def spec_parameters_def Let_def)

text \<open>
  Claim C6. The classifier answers high for a query of at least 16 words or with a
  keyword among its words, medium for 9 to 15 words and no keyword, low otherwise; the
  retrieval then runs with (8, 0.5), (5, 0.55) or (3, 0.6): the retrieval path gives the
  same result in an environment whose retriever answers at these parameters only.
  "why does X happen" is high and "hi" is low.
\<close>

theorem C6_complexity_adaptive_retrieval:
  "assess_query_complexity q =
     (if 16 \<le> length (str_split q) \<or> contains_keyword q then ''high''
      else if 9 \<le> length (str_split q) \<and> length (str_split q) \<le> 15 then ''medium''
      else ''low'')
   \<and> retrieval_parameters ''high'' = (8, 0.5)
   \<and> retrieval_parameters ''medium'' = (5, 0.55)
   \<and> retrieval_parameters ''low'' = (3, 0.6)
   \<and> query_rag cfg env g self q ids temperature instructions cb =
     query_rag cfg
       (env\<lparr>engine_query := \<lambda>l k c p s.
               if (k, c) = spec_parameters q then engine_query env l k c p s
               else Inl ''not called''\<rparr>)
       g self q ids temperature instructions cb
   \<and> assess_query_complexity ''why does X happen'' = ''high''
   \<and> spec_parameters ''why does X happen'' = (8, 0.5)
   \<and> assess_query_complexity ''hi'' = ''low''
   \<and> spec_parameters ''hi'' = (3, 0.6)"
proof -
  have engine: "query_rag cfg env g self q ids temperature instructions cb =
     query_rag cfg
       (env\<lparr>engine_query := \<lambda>l k c p s.
               if (k, c) = spec_parameters q then engine_query env l k c p s
               else Inl ''not called''\<rparr>)
       g self q ids temperature instructions cb"
    by (simp add: query_rag_def retrieval_parameters_spec Let_def
          cong: option.case_cong sum.case_cong)
  have why: "assess_query_complexity ''why does X happen'' = ''high''"
    by (simp add: assess_query_complexity_def complex_indicators_def str_split_def
          isspace_def str_lower_def)
  have hi: "assess_query_complexity ''hi'' = ''low''"
    by (simp add: assess_query_complexity_def complex_indicators_def str_split_def
          isspace_def str_lower_def)
  have why_parameters: "spec_parameters ''why does X happen'' = (8, 0.5)"
    using why retrieval_parameters_spec [of "''why does X happen''"]
    by (simp add: retrieval_parameters_def)
  have hi_parameters: "spec_parameters ''hi'' = (3, 0.6)"
    using hi retrieval_parameters_spec [of "''hi''"]
    by (simp add: retrieval_parameters_def)
  have table: "retrieval_parameters ''high'' = (8, 0.5)"
    "retrieval_parameters ''medium'' = (5, 0.55)"
    "retrieval_parameters ''low'' = (3, 0.6)"
    by (simp_all add: retrieval_parameters_def)
  from assess_query_complexity_cases [of q] table engine why why_parameters hi hi_parameters
  show ?thesis
    by blast
qed

subsection \<open>Words of a string that is not blank\<close>

lemma split_from_empty: "split_from cur s = [] \<longleftrightarrow> cur = [] \<and> (\<forall>c \<in> set s. isspace c)"
  by (induction cur s rule: split_from.induct) auto

lemma str_strip_empty: "str_strip s = [] \<longleftrightarrow> (\<forall>c \<in> set s. isspace c)"
proof -
  have "str_strip s = [] \<longleftrightarrow> (\<forall>c \<in> set (dropWhile isspace s). isspace c)"
    by (simp add: str_strip_def dropWhile_eq_Nil_conv)
  also have "\<dots> \<longleftrightarrow> dropWhile isspace s = []"
  proof
    assume all: "\<forall>c \<in> set (dropWhile isspace s). isspace c"
    show "dropWhile isspace s = []"
    proof (cases "dropWhile isspace s")
      case Nil
      then show ?thesis .
    next
      case (Cons c cs)
      then have "\<not> isspace c"
        using hd_dropWhile [of isspace s] by simp
      with all Cons show ?thesis by simp
    qed
  qed (auto dest: set_dropWhileD)
  finally show ?thesis
    by (simp add: dropWhile_eq_Nil_conv)
qed

lemma words_of_nonblank: "str_strip s \<noteq> [] \<Longrightarrow> 0 < length (str_split s)"
  by (simp add: str_split_def split_from_empty str_strip_empty)

subsection \<open>Totality and fallbacks of \<^verbatim>\<open>query\<close>\<close>

lemma query_llm_only_returns: "\<exists>d. query_llm_only cfg env q t i cb = Inr d"
  by (simp add: query_llm_only_def split: sum.split)

text \<open>No exception leaves \<^verbatim>\<open>query\<close>: for every input and environment it returns a tuple.\<close>

lemma query_never_raises: "\<exists>r. fst (query cfg env g self q ids cid t i mt mo) = Inr r"
proof -
  have "\<not> isl (fst (query cfg env g self q ids cid t i mt mo))"
    by (simp add: query_def split: sum.split prod.split)
  then show ?thesis
    by (metis sum.collapse(2))
qed

text \<open>
  Claim C5. \<^verbatim>\<open>query\<close> never raises and always returns a tuple; with an empty document
  scope it returns the status \<^verbatim>\<open>no_documents\<close> and a response text that is not empty.

  The first half is \<open>query_never_raises\<close>. The second half fails when the provider
  answers with an empty message: \<^verbatim>\<open>query("hello", document_ids=[])\<close> then returns the
  empty string, since the default of \<^verbatim>\<open>response.get("response", ...)\<close> stands in for a
  missing key only and the LLM-only path has no test for a blank answer.
\<close>

theorem C5_empty_scope_empty_response:
  "fst (query c5_cfg c5_env (snd (QueryEngine_init c5_cfg)) (fst (QueryEngine_init c5_cfg))
          ''hello'' (Some []) None None None None None) =
   Inr ('''', [], 0, ''no_documents'')"
  by (simp add: query_def resolve_scope_def query_llm_only_def query_llm_only_try_def c5_env_def
        dict_get_def RAGStatus_NO_DOCUMENTS_def Let_def)

lemma query_rag_tokens:
  assumes "fst (query_rag cfg env g self q ids t i cb) = Inr (answer, sources, tokens, status)"
  shows "\<exists>resp. engine_query env (Settings_llm (create_service_context cfg self g t))
            (fst (spec_parameters q)) (snd (spec_parameters q)) (build_system_prompt i cb) q = Inr resp
     \<and> tokens = length (str_split q) +
         length (str_split (nonblank_response resp))"
  using assms
  by (auto simp: query_rag_def Let_def retrieval_parameters_spec nonblank_response_def
        split: option.splits sum.splits)

lemma apology_words: "0 < length (str_split blank_response_text)"
  by (simp add: blank_response_text_def str_split_def isspace_def)

lemma nonblank_response_words: "0 < length (str_split (nonblank_response resp))"
  using apology_words words_of_nonblank [of "response_str resp"]
  by (simp add: nonblank_response_def)

lemma query_rag_tokens_positive:
  assumes "fst (query_rag cfg env g self q ids t i cb) = Inr (answer, sources, tokens, status)"
  shows "0 < tokens"
proof -
  from query_rag_tokens [OF assms] obtain resp where
    "tokens = length (str_split q) + length (str_split (nonblank_response resp))"
    by blast
  with nonblank_response_words [of resp] show ?thesis
    by simp
qed

lemma query_on_scope_error:
  assumes "resolve_scope env ids cid = Inl e"
  shows "\<exists>text. fst (query cfg env g self q ids cid t i mt mo) = Inr (text, [], 0, RAGStatus_FALLBACK)"
  using assms query_llm_only_returns [of cfg env q t i None]
  by (auto simp: query_def query_except_def)

lemma query_on_empty_scope:
  assumes "resolve_scope env ids cid = Inr (cb, [])"
  shows "\<exists>text. fst (query cfg env g self q ids cid t i mt mo) = Inr (text, [], 0, RAGStatus_NO_DOCUMENTS)"
  using assms query_llm_only_returns [of cfg env q t i cb]
  by (auto simp: query_def)

lemma query_on_vector_error:
  assumes "resolve_scope env ids cid = Inr (cb, ids')" and "ids' \<noteq> []"
    and "fst (query_rag cfg env g self q ids' t i cb) = Inl e"
  shows "\<exists>text. fst (query cfg env g self q ids cid t i mt mo) = Inr (text, [], 0, RAGStatus_ERROR)"
  using assms query_llm_only_returns [of cfg env q t i cb]
  by (cases "query_rag cfg env g self q ids' t i cb") (auto simp: query_def)

lemma query_on_retrieval:
  assumes "resolve_scope env ids cid = Inr (cb, ids')" and "ids' \<noteq> []"
    and "fst (query_rag cfg env g self q ids' t i cb) = Inr r"
  shows "fst (query cfg env g self q ids cid t i mt mo) = Inr r"
  using assms
  by (cases "query_rag cfg env g self q ids' t i cb") (auto simp: query_def)

text \<open>
  Claim C10. On each fallback path of \<^verbatim>\<open>query\<close> (the scope cannot be resolved and the
  outer handler answers with \<^verbatim>\<open>llm_fallback\<close>; the scope is empty, \<^verbatim>\<open>no_documents\<close>;
  the retrieval raises, \<^verbatim>\<open>error\<close>) the sources are empty and the token estimate is 0.
  On the remaining path the retrieval has run, and the estimate is the number of words
  of the query plus that of the response, which is positive.
\<close>

theorem C10_fallback_sources_and_tokens:
  "(case resolve_scope env ids cid of
      Inl e \<Rightarrow>
        (\<exists>text. fst (query cfg env g self q ids cid t i mt mo) =
                  Inr (text, [], 0, RAGStatus_FALLBACK))
    | Inr (cb, ids') \<Rightarrow>
        if ids' = [] then
          (\<exists>text. fst (query cfg env g self q ids cid t i mt mo) =
                    Inr (text, [], 0, RAGStatus_NO_DOCUMENTS))
        else
          (case fst (query_rag cfg env g self q ids' t i cb) of
             Inl e \<Rightarrow>
               (\<exists>text. fst (query cfg env g self q ids cid t i mt mo) =
                         Inr (text, [], 0, RAGStatus_ERROR))
           | Inr (text, sources, tokens, status) \<Rightarrow>
               fst (query cfg env g self q ids cid t i mt mo) = Inr (text, sources, tokens, status)
               \<and> 0 < tokens
               \<and> (\<exists>resp. engine_query env (Settings_llm (create_service_context cfg self g t))
                            (fst (spec_parameters q)) (snd (spec_parameters q))
                            (build_system_prompt i cb) q = Inr resp
                    \<and> tokens = length (str_split q) +
                        length (str_split
                          (nonblank_response resp)))))"
proof (cases "resolve_scope env ids cid")
  case (Inl e)
  with query_on_scope_error [OF Inl] show ?thesis by simp
next
  case (Inr p)
  obtain cb ids' where p: "p = (cb, ids')" by (cases p)
  with Inr have scope: "resolve_scope env ids cid = Inr (cb, ids')" by simp
  show ?thesis
  proof (cases "ids' = []")
    case True
    with scope query_on_empty_scope [of env ids cid cb] show ?thesis by simp
  next
    case False
    show ?thesis
    proof (cases "fst (query_rag cfg env g self q ids' t i cb)")
      case (Inl e)
      with scope False query_on_vector_error [OF scope False Inl] show ?thesis by simp
    next
      case (Inr r)
      obtain answer sources tokens status where r: "r = (answer, sources, tokens, status)"
        by (cases r)
      with Inr have rag: "fst (query_rag cfg env g self q ids' t i cb) =
          Inr (answer, sources, tokens, status)" by simp
      from scope False rag query_on_retrieval [OF scope False rag]
        query_rag_tokens [OF rag] query_rag_tokens_positive [OF rag]
      show ?thesis by simp
    qed
  qed
qed

subsection \<open>The global settings after a query\<close>

lemma query_rag_settings:
  "fst (snd (query_rag cfg env g self q ids t i cb)) = create_service_context cfg self g t"
  by (simp add: query_rag_def Let_def split: option.split sum.split)

lemma query_settings:
  "fst (snd (query cfg env g self q ids cid temperature instr max_tokens model)) =
     (case resolve_scope env ids cid of
        Inl e \<Rightarrow> g
      | Inr (cb, ids') \<Rightarrow> if ids' = [] then g else create_service_context cfg self g temperature)"
proof (cases "resolve_scope env ids cid")
  case (Inl e)
  then show ?thesis by (simp add: query_def)
next
  case (Inr p)
  obtain cb ids' where p: "p = (cb, ids')" by (cases p)
  show ?thesis
  proof (cases "ids' = []")
    case True
    with Inr p show ?thesis by (simp add: query_def split: sum.split)
  next
    case False
    have "fst (snd (query_rag cfg env g self q ids' temperature instr cb)) =
          create_service_context cfg self g temperature"
      by (rule query_rag_settings)
    with Inr p False show ?thesis
      by (cases "query_rag cfg env g self q ids' temperature instr cb")
         (auto simp: query_def split: sum.split)
  qed
qed

text \<open>
  Claim C9, as stated: after a query call with a temperature override the shared LLM
  settings are as before the call. After \<^verbatim>\<open>query("hi", document_ids=["d1"],
  temperature=0.1)\<close> on an engine configured with temperature 0.7, the global
  \<^verbatim>\<open>Settings.llm\<close> has temperature 0.1.
\<close>

theorem C9_override_stays_in_global_settings:
  "llm_temperature (Settings_llm (snd (QueryEngine_init c5_cfg))) = 0.7
   \<and> llm_temperature (Settings_llm (fst (snd
        (query c5_cfg c9_env (snd (QueryEngine_init c5_cfg)) (fst (QueryEngine_init c5_cfg))
           ''hi'' (Some [''d1'']) None (Some 0.1) None None None)))) = 0.1"
  by (simp add: query_def resolve_scope_def query_rag_def create_service_context_def c9_env_def
        QueryEngine_init_def c5_cfg_def Let_def)

text \<open>
  Claim C9, amended. A query call that reaches the retrieval path (a document scope
  that is not empty) assigns the global \<^verbatim>\<open>Settings.llm\<close>, and the assignment stays after
  the call: with a temperature override \<open>t\<close> it is a new client with the configured
  model and token limit and temperature \<open>t\<close>, without one it is the engine's own client.
  A call that answers from the LLM alone leaves the global settings as they were. The
  \<^verbatim>\<open>max_tokens\<close> and \<^verbatim>\<open>model\<close> arguments change neither the result nor the settings.
\<close>

theorem C9_settings_after_query_amended:
  "fst (snd (query cfg env g self q ids cid temperature instr max_tokens model)) =
     (case resolve_scope env ids cid of
        Inl e \<Rightarrow> g
      | Inr (cb, ids') \<Rightarrow>
          if ids' = [] then g
          else (case temperature of
                  Some t \<Rightarrow>
                    g\<lparr>Settings_llm := \<lparr>llm_model = LLM_MODEL cfg, llm_max_tokens = LLM_MAX_TOKENS cfg,
                                        llm_temperature = t\<rparr>,
                      Settings_embed_model := self_embeddings self\<rparr>
                | None \<Rightarrow>
                    g\<lparr>Settings_llm := self_llm self, Settings_embed_model := self_embeddings self\<rparr>))
   \<and> query cfg env g self q ids cid temperature instr max_tokens model =
     query cfg env g self q ids cid temperature instr None None"
proof -
  have "query cfg env g self q ids cid temperature instr max_tokens model =
        query cfg env g self q ids cid temperature instr None None"
    by (simp add: query_def)
  with query_settings [of cfg env g self q ids cid temperature instr max_tokens model]
  show ?thesis
    by (simp add: create_service_context_def split: sum.split prod.split option.split)
qed

section \<open>Properties of the document processor\<close>

subsection \<open>What the status updates leave alone\<close>

lemma update_document_files: "update_document w d upd = Inr w' \<Longrightarrow> files_of w' = files_of w"
  by (auto simp: update_document_def files_of_def split: option.splits if_splits)

lemma update_processing_status_files:
  "update_processing_status w d step status st err = (st', w') \<Longrightarrow> files_of w' = files_of w"
  by (auto simp: update_processing_status_def Let_def split: sum.splits
      dest: update_document_files)

lemma update_document_status_files:
  "files_of (update_document_status w d status err st) = files_of w"
  by (auto simp: update_document_status_def split: sum.splits dest: update_document_files)

lemma fail_step_files: "fail_step w d step st msg = (chunks, st', w') \<Longrightarrow> files_of w' = files_of w"
  by (auto simp: fail_step_def split: prod.splits dest: update_processing_status_files)

lemma store_chunks_files:
  "store_chunks env w d b nodes embs st = (r, w') \<Longrightarrow> files_of w' = files_of w"
  by (auto simp: store_chunks_def Let_def files_of_def split: prod.splits sum.splits)

text \<open>Steps 2 to 5 touch neither the local files nor the bucket, and no document appears or disappears.\<close>

lemma process_content_files:
  assumes "process_content env w d b fp tc ps = (chunks, st, w')"
  shows "files_of w' = files_of w"
  using assms
  unfolding process_content_def Let_def
  by (auto split: prod.splits step_result.splits
      dest!: update_processing_status_files fail_step_files store_chunks_files)

subsection \<open>Status updates and cleanup on a stored document\<close>

lemma map_of_dict_set_same: "map_of (dict_set kvs k v) k = Some v"
  by (induction kvs k v rule: dict_set.induct) auto

lemma map_of_dict_set_other: "k' \<noteq> k \<Longrightarrow> map_of (dict_set kvs k v) k' = map_of kvs k'"
  by (induction kvs k v rule: dict_set.induct) auto

text \<open>A status update on a stored document, written out.\<close>

lemma update_processing_status_existing:
  assumes "firestore w d = Some doc"
  shows "update_processing_status w d step status st err =
     (st\<lparr>ps_steps := dict_set (ps_steps st) step \<lparr>se_status = status, se_error = (if truthy err then err else None)\<rparr>\<rparr>,
      w\<lparr>firestore := (firestore w)(d \<mapsto> doc\<lparr>processingStats := Some (PipelineStats
          (st\<lparr>ps_steps := dict_set (ps_steps st) step \<lparr>se_status = status, se_error = (if truthy err then err else None)\<rparr>\<rparr>))\<rparr>)\<rparr>)"
  using assms by (simp add: update_processing_status_def update_document_def Let_def)

lemma update_processing_status_effect:
  assumes "firestore w d = Some doc" and "update_processing_status w d step status st err = (st', w')"
  shows "step_status w' d step = Some status" and "scratch w' = scratch w"
    and "map_of (ps_steps st') step = Some \<lparr>se_status = status, se_error = (if truthy err then err else None)\<rparr>"
    and "\<exists>doc'. firestore w' d = Some doc' \<and> processingStats doc' = Some (PipelineStats st')"
  using assms update_processing_status_existing [OF assms(1), of step status st err]
  by (auto simp: step_status_def map_of_dict_set_same)

text \<open>
  The cleanup step on a stored document whose temporary file exists: the file is gone
  unless the unlink itself fails, and the step is recorded as completed or as failed.
\<close>

lemma cleanup_result:
  assumes "firestore w d = Some doc" and "path \<in> scratch w"
    and "cleanup env w d path st = (st', w')"
  shows "step_status w' d CLEANUP = Some (case unlink_fails env path of None \<Rightarrow> COMPLETED | Some e \<Rightarrow> FAILED)
    \<and> (unlink_fails env path = None \<longrightarrow> path \<notin> scratch w')
    \<and> (scratch w' \<subseteq> scratch w)
    \<and> (\<exists>doc'. firestore w' d = Some doc' \<and> processingStats doc' = Some (PipelineStats st'))
    \<and> map_option se_status (map_of (ps_steps st') CLEANUP) =
        Some (case unlink_fails env path of None \<Rightarrow> COMPLETED | Some e \<Rightarrow> FAILED)"
proof -
  obtain st1 w1 where u1: "update_processing_status w d CLEANUP IN_PROGRESS st None = (st1, w1)"
    by (cases "update_processing_status w d CLEANUP IN_PROGRESS st None")
  from update_processing_status_effect [OF assms(1) u1] obtain doc1 where
    d1: "firestore w1 d = Some doc1" and s1: "scratch w1 = scratch w" by blast
  show ?thesis
  proof (cases "unlink_fails env path")
    case None
    let ?w2 = "w1\<lparr>scratch := scratch w1 - {path}\<rparr>"
    have d2: "firestore ?w2 d = Some doc1" using d1 by simp
    from assms(2,3) u1 s1 None
    have c: "update_processing_status ?w2 d CLEANUP COMPLETED st1 None = (st', w')"
      by (simp add: cleanup_def)
    from update_processing_status_effect [OF d2 c] None s1 show ?thesis
      by auto
  next
    case (Some e)
    from assms(2,3) u1 s1 Some
    have c: "update_processing_status w1 d CLEANUP FAILED st1 (Some e) = (st', w')"
      by (simp add: cleanup_def)
    from update_processing_status_effect [OF d1 c] Some s1 show ?thesis
      by auto
  qed
qed

subsection \<open>How \<^verbatim>\<open>process_document\<close> ends\<close>

lemma update_document_status_existing:
  assumes "firestore w d = Some doc"
  shows "update_document_status w d status err (Some st) =
     w\<lparr>firestore := (firestore w)(d \<mapsto> doc\<lparr>processingStatus := Some status,
          error := (if truthy err then err else error doc),
          processingStats := Some (PipelineStats st)\<rparr>)\<rparr>"
  using assms by (simp add: update_document_status_def update_document_def)

lemma failed_settled:
  assumes "firestore w d = Some doc" and "msg \<noteq> []"
  shows "settled (update_document_status w d ''failed'' (Some msg) (Some st)) d (ps_steps st)"
    and "scratch (update_document_status w d ''failed'' (Some msg) (Some st)) = scratch w"
  using assms
  by (simp_all add: update_document_status_existing [OF assms(1)] settled_def record_invariant_def truthy_def)


lemma finish_processing_completed:
  assumes "firestore w d = Some doc" and "chunks \<noteq> []"
  shows "finish_processing w d chunks st =
     (ResultData (length chunks) (map row_id chunks) (st\<lparr>ps_chunkCount := Some (length chunks)\<rparr>),
      w\<lparr>firestore := (firestore w)(d \<mapsto> doc\<lparr>processingStatus := Some ''completed'',
            chunkCount := Some (length chunks), vectorIds := Some (map row_id chunks),
            processingStats := Some (PipelineStats (st\<lparr>ps_chunkCount := Some (length chunks)\<rparr>)),
            error := None\<rparr>)\<rparr>)"
  using assms by (simp add: finish_processing_def update_document_def Let_def)

lemma finish_processing_settled:
  assumes "firestore w d = Some doc" and "finish_processing w d chunks st = (r, w')"
  shows "settled w' d (ps_steps st) \<and> scratch w' = scratch w"
proof (cases "chunks = []")
  case True
  with assms(2) have "w' = update_document_status w d ''failed'' (Some ''No chunks created'') (Some st)"
    by (simp add: finish_processing_def)
  with failed_settled [OF assms(1), of "''No chunks created''" st] show ?thesis
    by simp
next
  case False
  from finish_processing_completed [OF assms(1) False, of st] assms(2)
  have w': "w' = w\<lparr>firestore := (firestore w)(d \<mapsto> doc\<lparr>processingStatus := Some ''completed'',
            chunkCount := Some (length chunks), vectorIds := Some (map row_id chunks),
            processingStats := Some (PipelineStats (st\<lparr>ps_chunkCount := Some (length chunks)\<rparr>)),
            error := None\<rparr>)\<rparr>"
    by simp
  from False have "0 < length chunks" by simp
  then show ?thesis
    unfolding w' settled_def record_invariant_def
    by simp
qed

lemma settled_step_status:
  "settled w d steps \<Longrightarrow> step_status w d step = map_option se_status (map_of steps step)"
  by (auto simp: settled_def step_status_def)

lemma files_of_scratch: "files_of w' = files_of w \<Longrightarrow> scratch w' = scratch w"
  by (simp add: files_of_def)

lemma files_of_bucket: "files_of w' = files_of w \<Longrightarrow> bucket w' = bucket w"
  by (simp add: files_of_def)

lemma files_of_stored: "files_of w' = files_of w \<Longrightarrow> firestore w d = Some doc \<Longrightarrow> \<exists>doc'. firestore w' d = Some doc'"
  by (auto simp: files_of_def dest: domI)

text \<open>
  The file branch once the download has succeeded: whatever steps 2 to 5 do, the cleanup
  step is recorded, the temporary file is unlinked, and the document ends completed or
  failed.
\<close>

lemma process_file_after_download:
  assumes stored: "firestore w d = Some doc"
    and blob: "uri \<in> bucket w"
    and dl: "download_to env uri = Inr path"
    and times: "ps_stepTimes stats \<noteq> None"
    and run: "process_file env w d base uri stats = (r, w')"
  shows "step_status w' d CLEANUP = Some (case unlink_fails env path of None \<Rightarrow> COMPLETED | Some e \<Rightarrow> FAILED)
    \<and> (unlink_fails env path = None \<longrightarrow> path \<notin> scratch w')
    \<and> (\<exists>steps. settled w' d steps)"
proof -
  obtain st1 w1 where u1: "update_processing_status w d DOWNLOAD IN_PROGRESS stats None = (st1, w1)"
    by (cases "update_processing_status w d DOWNLOAD IN_PROGRESS stats None")
  from update_processing_status_effect [OF stored u1] obtain doc1 where d1: "firestore w1 d = Some doc1"
    by blast
  from update_processing_status_files [OF u1] blob have b1: "uri \<in> bucket w1"
    by (simp add: files_of_def)
  from u1 times have t1: "ps_stepTimes st1 \<noteq> None"
    by (auto simp: update_processing_status_existing [OF stored])
  let ?w2 = "w1\<lparr>scratch := insert path (scratch w1)\<rparr>"
  from b1 dl have down: "download_file env w1 uri = (Inr path, ?w2)"
    by (simp add: download_file_def)
  have d2: "firestore ?w2 d = Some doc1" using d1 by simp
  from t1 obtain st2 where s2: "set_step_time st1 DOWNLOAD = Inr st2"
    by (auto simp: set_step_time_def)
  obtain st3 w3 where u3: "update_processing_status ?w2 d DOWNLOAD COMPLETED st2 None = (st3, w3)"
    by (cases "update_processing_status ?w2 d DOWNLOAD COMPLETED st2 None")
  from update_processing_status_effect [OF d2 u3] obtain doc3 where d3: "firestore w3 d = Some doc3"
    and sc3: "scratch w3 = scratch ?w2" by blast
  obtain chunks st4 w4 where pc: "process_content env w3 d base (Some path) None (Some st3) = (chunks, st4, w4)"
    by (cases "process_content env w3 d base (Some path) None (Some st3)")
  from process_content_files [OF pc] have f4: "files_of w4 = files_of w3" .
  from files_of_stored [OF f4 d3] obtain doc4 where d4: "firestore w4 d = Some doc4" by blast
  from files_of_scratch [OF f4] sc3 have p4: "path \<in> scratch w4" by simp
  obtain st5 w5 where cl: "cleanup env w4 d path st4 = (st5, w5)"
    by (cases "cleanup env w4 d path st4")
  note c5 = cleanup_result [OF d4 p4 cl]
  from c5 obtain doc5 where d5: "firestore w5 d = Some doc5" by blast
  from run u1 down s2 u3 pc cl have fin: "finish_processing w5 d chunks st5 = (r, w')"
    by (simp add: process_file_def)
  from finish_processing_settled [OF d5 fin] have set': "settled w' d (ps_steps st5)" and sc': "scratch w' = scratch w5"
    by simp_all
  from settled_step_status [OF set', of CLEANUP] c5
  have "step_status w' d CLEANUP = Some (case unlink_fails env path of None \<Rightarrow> COMPLETED | Some e \<Rightarrow> FAILED)"
    by simp
  moreover from c5 sc' have "unlink_fails env path = None \<longrightarrow> path \<notin> scratch w'"
    by simp
  ultimately show ?thesis using set' by blast
qed

lemma process_file_download_failed:
  assumes stored: "firestore w d = Some doc"
    and dl: "uri \<notin> bucket w \<or> isl (download_to env uri)"
    and run: "process_file env w d base uri stats = (r, w')"
  shows "\<exists>steps. settled w' d steps"
proof -
  obtain st1 w1 where u1: "update_processing_status w d DOWNLOAD IN_PROGRESS stats None = (st1, w1)"
    by (cases "update_processing_status w d DOWNLOAD IN_PROGRESS stats None")
  from update_processing_status_effect [OF stored u1] obtain doc1 where d1: "firestore w1 d = Some doc1"
    by blast
  from update_processing_status_files [OF u1] have b1: "bucket w1 = bucket w"
    by (simp add: files_of_def)
  from dl b1 have "\<exists>e. download_file env w1 uri = (Inl e, w1)"
    by (cases "download_to env uri") (simp_all add: download_file_def)
  then obtain e where down: "download_file env w1 uri = (Inl e, w1)" ..
  obtain st2 w3 where u2: "update_processing_status w1 d DOWNLOAD FAILED st1 (Some e) = (st2, w3)"
    by (cases "update_processing_status w1 d DOWNLOAD FAILED st1 (Some e)")
  from update_processing_status_effect [OF d1 u2] obtain doc3 where d3: "firestore w3 d = Some doc3"
    by blast
  from run u1 down u2
  have "w' = update_document_status w3 d ''failed'' (Some (''Failed to download file: '' @ e)) (Some st2)"
    by (simp add: process_file_def)
  with failed_settled(1) [OF d3, of "''Failed to download file: '' @ e" st2] show ?thesis
    by auto
qed

lemma process_file_settles:
  assumes stored: "firestore w d = Some doc"
    and times: "ps_stepTimes stats \<noteq> None"
    and run: "process_file env w d base uri stats = (r, w')"
  shows "\<exists>steps. settled w' d steps"
proof (cases "uri \<notin> bucket w \<or> isl (download_to env uri)")
  case True
  from process_file_download_failed [OF stored True run] show ?thesis .
next
  case False
  then obtain path where "uri \<in> bucket w" and "download_to env uri = Inr path"
    by (cases "download_to env uri") auto
  from process_file_after_download [OF stored this times run] show ?thesis
    by blast
qed

lemma process_document_start:
  assumes "firestore w d = Some doc"
  shows "update_document w d (\<lambda>d. d\<lparr>processingStatus := Some ''processing'',
            processingStats := Some (PipelineStats \<lparr>ps_steps = [], ps_stepTimes = Some [], ps_chunkCount = None\<rparr>)\<rparr>) =
         Inr (w\<lparr>firestore := (firestore w)(d \<mapsto> doc\<lparr>processingStatus := Some ''processing'',
            processingStats := Some (PipelineStats \<lparr>ps_steps = [], ps_stepTimes = Some [], ps_chunkCount = None\<rparr>)\<rparr>)\<rparr>)"
  using assms by (simp add: update_document_def)

lemma process_document_file:
  assumes "firestore w d = Some doc" and "storageUri doc = Some uri" and "uri \<noteq> []"
  shows "process_document env w d =
     process_file env
       (w\<lparr>firestore := (firestore w)(d \<mapsto> doc\<lparr>processingStatus := Some ''processing'',
            processingStats := Some (PipelineStats \<lparr>ps_steps = [], ps_stepTimes = Some [], ps_chunkCount = None\<rparr>)\<rparr>)\<rparr>)
       d [(''document_id'', d), (''name'', case doc_name doc of None \<Rightarrow> ''Untitled'' | Some n \<Rightarrow> n)]
       uri \<lparr>ps_steps = [], ps_stepTimes = Some [], ps_chunkCount = None\<rparr>"
  using assms
  by (simp add: process_document_def process_document_start [OF assms(1)] get_document_def truthy_def Let_def)

subsection \<open>Cleanup\<close>

text \<open>
  Claim C8. For a document stored as a file whose download succeeds, the cleanup step
  runs on every exit path of \<^verbatim>\<open>process_document\<close>, whatever the extraction, the
  chunking, the embedding and the storage do in the environment (return, fail or
  raise): the step is recorded for the document, and the temporary file is removed. The
  file stays only when \<^verbatim>\<open>os.unlink\<close> itself raises, and the step is then recorded as
  failed.
\<close>

theorem C8_cleanup_guarantee:
  assumes "firestore w document_id = Some d"
    and "storageUri d = Some uri" and "uri \<noteq> []"
    and "uri \<in> bucket w" and "download_to env uri = Inr path"
  shows "step_status (snd (process_document env w document_id)) document_id CLEANUP =
           Some (case unlink_fails env path of None \<Rightarrow> COMPLETED | Some e \<Rightarrow> FAILED)
       \<and> (unlink_fails env path = None \<longrightarrow> path \<notin> scratch (snd (process_document env w document_id)))"
proof -
  let ?w1 = "w\<lparr>firestore := (firestore w)(document_id \<mapsto> d\<lparr>processingStatus := Some ''processing'',
            processingStats := Some (PipelineStats \<lparr>ps_steps = [], ps_stepTimes = Some [], ps_chunkCount = None\<rparr>)\<rparr>)\<rparr>"
  obtain r w' where run: "process_document env w document_id = (r, w')"
    by (cases "process_document env w document_id")
  with process_document_file [OF assms(1-3), of env]
  have pf: "process_file env ?w1 document_id
       [(''document_id'', document_id), (''name'', case doc_name d of None \<Rightarrow> ''Untitled'' | Some n \<Rightarrow> n)]
       uri \<lparr>ps_steps = [], ps_stepTimes = Some [], ps_chunkCount = None\<rparr> = (r, w')"
    by simp
  have s1: "firestore ?w1 document_id = Some (d\<lparr>processingStatus := Some ''processing'',
            processingStats := Some (PipelineStats \<lparr>ps_steps = [], ps_stepTimes = Some [], ps_chunkCount = None\<rparr>)\<rparr>)"
    by simp
  have b1: "uri \<in> bucket ?w1" using assms(4) by simp
  have t: "ps_stepTimes \<lparr>ps_steps = [], ps_stepTimes = Some [], ps_chunkCount = None\<rparr> \<noteq> None" by simp
  from process_file_after_download [OF s1 b1 assms(5) t pf] run show ?thesis
    by simp
qed

theorem C8_cleanup_guarantee_witness:
  "firestore c1_world ''d1'' = Some c1_document
   \<and> storageUri c1_document = Some ''documents/u1/d1/notes.txt''
   \<and> ''documents/u1/d1/notes.txt'' \<in> bucket c1_world
   \<and> download_to (c1_env\<lparr>get_text_embedding_batch := (\<lambda>texts. Inl ''out of memory'')\<rparr>)
        ''documents/u1/d1/notes.txt'' = Inr ''/tmp/tmpab12cd.txt''
   \<and> unlink_fails (c1_env\<lparr>get_text_embedding_batch := (\<lambda>texts. Inl ''out of memory'')\<rparr>)
        ''/tmp/tmpab12cd.txt'' = None
   \<and> step_status
        (snd (process_document (c1_env\<lparr>get_text_embedding_batch := (\<lambda>texts. Inl ''out of memory'')\<rparr>)
                c1_world ''d1'')) ''d1'' CLEANUP = Some COMPLETED
   \<and> ''/tmp/tmpab12cd.txt'' \<notin>
        scratch (snd (process_document
                        (c1_env\<lparr>get_text_embedding_batch := (\<lambda>texts. Inl ''out of memory'')\<rparr>)
                        c1_world ''d1''))"
proof -
  let ?env = "c1_env\<lparr>get_text_embedding_batch := (\<lambda>texts. Inl ''out of memory'')\<rparr>"
  have h: "firestore c1_world ''d1'' = Some c1_document"
    "storageUri c1_document = Some ''documents/u1/d1/notes.txt''"
    "''documents/u1/d1/notes.txt'' \<noteq> []"
    "''documents/u1/d1/notes.txt'' \<in> bucket c1_world"
    "download_to ?env ''documents/u1/d1/notes.txt'' = Inr ''/tmp/tmpab12cd.txt''"
    by (simp_all add: c1_world_def c1_document_def c1_env_def)
  have u: "unlink_fails ?env ''/tmp/tmpab12cd.txt'' = None"
    by (simp add: c1_env_def)
  from C8_cleanup_guarantee [OF h] h u show ?thesis
    by simp
qed

subsection \<open>The immediate entry point\<close>

lemma update_processing_status_stats:
  "fst (update_processing_status w d step status st err) =
     st\<lparr>ps_steps := dict_set (ps_steps st) step
           \<lparr>se_status = status, se_error = (if truthy err then err else None)\<rparr>\<rparr>"
  by (simp add: update_processing_status_def Let_def split: sum.split)

lemma validate_extraction_no_times:
  "ps_stepTimes st = None \<Longrightarrow> \<exists>msg. validate_extraction st documents = Failed_with msg"
  by (simp add: validate_extraction_def set_step_time_def)

lemma extract_documents_no_times:
  assumes "ps_stepTimes st = None"
  shows "\<exists>msg. extract_documents env fp tc st = Failed_with msg"
  using validate_extraction_no_times [OF assms]
  by (simp add: extract_documents_def Let_def split: option.split sum.split)

text \<open>
  Called without a \<^verbatim>\<open>processing_stats\<close> argument, \<^verbatim>\<open>_process_content\<close> returns no chunks:
  the first assignment to \<^verbatim>\<open>processing_stats["stepTimes"]\<close> raises a \<^verbatim>\<open>KeyError\<close>, which the
  extraction step catches.
\<close>

lemma process_content_without_stats: "fst (process_content env w d b fp tc None) = []"
proof -
  let ?st0 = "\<lparr>ps_steps = [], ps_stepTimes = None, ps_chunkCount = None\<rparr>"
  obtain st1 w1 where u1: "update_processing_status w d TEXT_EXTRACTION IN_PROGRESS ?st0 None = (st1, w1)"
    by (cases "update_processing_status w d TEXT_EXTRACTION IN_PROGRESS ?st0 None")
  with update_processing_status_stats [of w d TEXT_EXTRACTION IN_PROGRESS ?st0 None]
  have "ps_stepTimes st1 = None" by simp
  from extract_documents_no_times [OF this] obtain msg where
    "extract_documents env fp tc st1 = Failed_with msg" by blast
  with u1 show ?thesis
    by (simp add: process_content_def fail_step_def split: prod.split)
qed

lemma immediate_try_return:
  assumes "immediate_try env w d mr a = (Return b, w')"
  shows "b \<and> completed_empty w' d"
proof -
  from assms obtain document_data where g: "get_document w d = Some document_data"
    by (cases "get_document w d") (auto simp: immediate_try_def split: if_splits)
  from assms g have m: "missing_fields document_data = []"
    by (auto simp: immediate_try_def split: if_splits)
  let ?uri = "case storageUri document_data of Some p \<Rightarrow> p | None \<Rightarrow> []"
  obtain dr w1 where dl: "download_file env w ?uri = (dr, w1)"
    by (cases "download_file env w ?uri")
  from assms g m dl obtain path where dr: "dr = Inr path"
    by (cases dr) (auto simp: immediate_try_def)
  obtain chunks st w2 where pc: "process_content env w1 d [] (Some path) None None = (chunks, st, w2)"
    by (cases "process_content env w1 d [] (Some path) None None")
  with process_content_without_stats [of env w1 d "[]" "Some path" None]
  have chunks: "chunks = []" by simp
  let ?w3 = "unlink_quietly env w2 path"
  from assms g m dl dr pc chunks
  have "update_document ?w3 d (\<lambda>d. d\<lparr>processingStatus := Some ''completed'',
               chunkCount := Some 0, processingStats := Some (ImmediateStats 0)\<rparr>) = Inr w' \<and> b"
    by (simp add: immediate_try_def Let_def split: sum.splits)
  then have up: "update_document ?w3 d (\<lambda>d. d\<lparr>processingStatus := Some ''completed'',
               chunkCount := Some 0, processingStats := Some (ImmediateStats 0)\<rparr>) = Inr w'" and b: b
    by simp_all
  from up obtain doc where "firestore ?w3 d = Some doc"
    and "w' = ?w3\<lparr>firestore := (firestore ?w3)(d \<mapsto> doc\<lparr>processingStatus := Some ''completed'',
               chunkCount := Some 0, processingStats := Some (ImmediateStats 0)\<rparr>)\<rparr>"
    by (auto simp: update_document_def split: option.splits)
  then have "completed_empty w' d"
    by (simp add: completed_empty_def record_invariant_def split: option.split)
  with b show ?thesis by simp
qed

lemma immediate_attempt_return:
  assumes "immediate_attempt env w d mr a = (Return b, w')"
  shows "b \<and> completed_empty w' d"
proof -
  obtain r w1 where t: "immediate_try env w d mr a = (r, w1)"
    by (cases "immediate_try env w d mr a")
  with assms have "r = Return b \<and> w1 = w'"
    by (cases r) (auto simp: immediate_attempt_def Let_def split: if_splits sum.splits)
  with t immediate_try_return [of env w d mr a b w'] show ?thesis by simp
qed

lemma immediate_attempts_return:
  "immediate_attempts env w d mr as = (Inr True, w') \<Longrightarrow> completed_empty w' d"
proof (induction as arbitrary: w)
  case Nil
  then show ?case by simp
next
  case (Cons a as)
  obtain r w1 where t: "immediate_attempt env w d mr a = (r, w1)"
    by (cases "immediate_attempt env w d mr a")
  show ?case
  proof (cases r)
    case Continue
    with Cons t show ?thesis by simp
  next
    case (Return b)
    with Cons.prems t immediate_attempt_return [of env w d mr a b w1] show ?thesis by simp
  next
    case (Raise e)
    with Cons.prems t show ?thesis by simp
  qed
qed

text \<open>
  Whenever \<^verbatim>\<open>process_document_immediately\<close> returns \<^verbatim>\<open>True\<close>, it has marked the document
  as completed with a chunk count of 0.
\<close>

lemma process_document_immediately_breaks_invariant:
  "process_document_immediately env w d mr = (Inr True, w') \<Longrightarrow> completed_empty w' d"
  by (simp add: process_document_immediately_def immediate_attempts_return)

lemma download_file_cases:
  assumes "download_file env w uri = (r, w1)"
  shows "(\<exists>e. r = Inl e \<and> w1 = w) \<or> (\<exists>p. r = Inr p \<and> w1 = w\<lparr>scratch := insert p (scratch w)\<rparr>)"
proof (cases "uri \<in> bucket w")
  case False
  then have "download_file env w uri = (Inl (''File not found in storage at '' @ uri), w)"
    by (simp add: download_file_def)
  with assms have "r = Inl (''File not found in storage at '' @ uri)" and "w1 = w"
    by simp_all
  then show ?thesis by blast
next
  case True
  show ?thesis
  proof (cases "download_to env uri")
    case (Inl e)
    with True have "download_file env w uri = (Inl e, w)"
      by (simp add: download_file_def)
    with assms have "r = Inl e" and "w1 = w"
      by simp_all
    then show ?thesis by blast
  next
    case (Inr p)
    with True have "download_file env w uri = (Inr p, w\<lparr>scratch := insert p (scratch w)\<rparr>)"
      by (simp add: download_file_def)
    with assms have "r = Inr p" and "w1 = w\<lparr>scratch := insert p (scratch w)\<rparr>"
      by simp_all
    then show ?thesis by blast
  qed
qed

lemma unlink_quietly_scratch:
  "unlink_fails env p = None \<Longrightarrow> scratch (unlink_quietly env w p) = scratch w - {p}"
  by (auto simp: unlink_quietly_def)

lemma unlink_quietly_firestore: "firestore (unlink_quietly env w p) = firestore w"
  by (simp add: unlink_quietly_def split: option.split)

lemma update_document_scratch: "update_document w d upd = Inr w' \<Longrightarrow> scratch w' = scratch w"
  by (auto dest: update_document_files simp: files_of_def)

lemma immediate_try_scratch:
  assumes ok: "\<forall>p. unlink_fails env p = None"
  shows "scratch (snd (immediate_try env w d mr a)) \<subseteq> scratch w"
proof (cases "get_document w d")
  case None
  then show ?thesis by (simp add: immediate_try_def)
next
  case (Some document_data)
  show ?thesis
  proof (cases "missing_fields document_data = []")
    case False
    with Some show ?thesis by (simp add: immediate_try_def)
  next
    case True
    let ?uri = "case storageUri document_data of Some p \<Rightarrow> p | None \<Rightarrow> []"
    obtain r w1 where dl: "download_file env w ?uri = (r, w1)"
      by (cases "download_file env w ?uri")
    from download_file_cases [OF dl] show ?thesis
    proof
      assume "\<exists>e. r = Inl e \<and> w1 = w"
      with Some True dl show ?thesis by (auto simp: immediate_try_def)
    next
      assume "\<exists>p. r = Inr p \<and> w1 = w\<lparr>scratch := insert p (scratch w)\<rparr>"
      then obtain p where r: "r = Inr p" and w1: "scratch w1 = insert p (scratch w)" by auto
      obtain chunks st w2 where pc: "process_content env w1 d [] (Some p) None None = (chunks, st, w2)"
        by (cases "process_content env w1 d [] (Some p) None None")
      from files_of_scratch [OF process_content_files [OF pc]] w1
      have "scratch w2 = insert p (scratch w)" by simp
      with ok unlink_quietly_scratch [of env p w2]
      have s3: "scratch (unlink_quietly env w2 p) \<subseteq> scratch w" by auto
      show ?thesis
      proof (cases "update_document (unlink_quietly env w2 p) d
                 (\<lambda>d. d\<lparr>processingStatus := Some ''completed'', chunkCount := Some (length chunks),
                        processingStats := Some (ImmediateStats (length chunks))\<rparr>)")
        case (Inl e)
        with Some True dl r pc s3 show ?thesis by (simp add: immediate_try_def Let_def)
      next
        case (Inr w4)
        with Some True dl r pc s3 update_document_scratch [OF Inr] show ?thesis
          by (simp add: immediate_try_def Let_def)
      qed
    qed
  qed
qed

lemma immediate_attempt_scratch:
  assumes ok: "\<forall>p. unlink_fails env p = None"
  shows "scratch (snd (immediate_attempt env w d mr a)) \<subseteq> scratch w"
proof -
  obtain r w1 where t: "immediate_try env w d mr a = (r, w1)"
    by (cases "immediate_try env w d mr a")
  with immediate_try_scratch [OF ok, of w d mr a] have s1: "scratch w1 \<subseteq> scratch w" by simp
  show ?thesis
  proof (cases r)
    case Continue
    with t s1 show ?thesis by (simp add: immediate_attempt_def)
  next
    case (Return b)
    with t s1 show ?thesis by (simp add: immediate_attempt_def)
  next
    case (Raise e)
    let ?upd = "\<lambda>d'. d'\<lparr>processingStatus := Some ''failed'',
                 error := Some (''Error processing document '' @ d @ '': '' @ e),
                 processingStats := Some (FailureStats (a + 1) e)\<rparr>"
    show ?thesis
    proof (cases "update_document w1 d ?upd")
      case (Inl u)
      with t Raise s1 show ?thesis by (simp add: immediate_attempt_def Let_def)
    next
      case (Inr w2)
      with t Raise s1 update_document_scratch [OF Inr] show ?thesis
        by (simp add: immediate_attempt_def Let_def)
    qed
  qed
qed

lemma immediate_attempts_scratch:
  assumes ok: "\<forall>p. unlink_fails env p = None"
  shows "scratch (snd (immediate_attempts env w d mr as)) \<subseteq> scratch w"
proof (induction as arbitrary: w)
  case Nil
  then show ?case by simp
next
  case (Cons a as)
  obtain r w1 where t: "immediate_attempt env w d mr a = (r, w1)"
    by (cases "immediate_attempt env w d mr a")
  with immediate_attempt_scratch [OF ok, of w d mr a] have s1: "scratch w1 \<subseteq> scratch w" by simp
  show ?case
  proof (cases r)
    case Continue
    with t s1 Cons.IH [of w1] show ?thesis by auto
  next
    case (Return b)
    with t s1 show ?thesis by simp
  next
    case (Raise e)
    with t s1 show ?thesis by simp
  qed
qed

text \<open>
  The immediate entry point unlinks its temporary file on every path as well: when
  \<^verbatim>\<open>os.unlink\<close> does not raise, no file is left behind, whatever the call returns or raises.
\<close>

lemma process_document_immediately_leaves_no_file:
  "\<forall>p. unlink_fails env p = None \<Longrightarrow>
   scratch (snd (process_document_immediately env w d mr)) \<subseteq> scratch w"
  by (simp add: process_document_immediately_def immediate_attempts_scratch)

text \<open>
  \<^verbatim>\<open>process_document\<close> on a stored document always ends with the document completed or
  failed and the record invariant in force.
\<close>

lemma process_document_keeps_invariant:
  assumes stored: "firestore w document_id = Some d"
  shows "\<exists>steps. settled (snd (process_document env w document_id)) document_id steps"
proof -
  let ?stats = "\<lparr>ps_steps = [], ps_stepTimes = Some [], ps_chunkCount = None\<rparr>"
  let ?d1 = "d\<lparr>processingStatus := Some ''processing'', processingStats := Some (PipelineStats ?stats)\<rparr>"
  let ?w1 = "w\<lparr>firestore := (firestore w)(document_id \<mapsto> ?d1)\<rparr>"
  let ?base = "[(''document_id'', document_id),
                (''name'', case doc_name d of None \<Rightarrow> ''Untitled'' | Some n \<Rightarrow> n)]"
  have s1: "firestore ?w1 document_id = Some ?d1"
    by simp
  obtain r w' where run: "process_document env w document_id = (r, w')"
    by (cases "process_document env w document_id")
  have "\<exists>steps. settled w' document_id steps"
  proof (cases "truthy (storageUri d)")
    case True
    then obtain uri where uri: "storageUri d = Some uri" "uri \<noteq> []"
      by (cases "storageUri d") (auto simp: truthy_def)
    from process_document_file [OF stored uri, of env] run
    have "process_file env ?w1 document_id ?base uri ?stats = (r, w')"
      by simp
    from process_file_settles [OF s1 _ this] show ?thesis
      by simp
  next
    case False
    show ?thesis
    proof (cases "truthy (content d)")
      case no_content: False
      from run False no_content
      have "w' = update_document_status ?w1 document_id ''failed''
                   (Some ''Document has no content or file'') (Some ?stats)"
        by (simp add: process_document_def process_document_start [OF stored] get_document_def
              Let_def)
      with failed_settled(1) [OF s1, of "''Document has no content or file''" ?stats]
      show ?thesis
        by auto
    next
      case True
      obtain chunks st w2 where
        pc: "process_content env ?w1 document_id ?base None (content d) (Some ?stats) = (chunks, st, w2)"
        by (cases "process_content env ?w1 document_id ?base None (content d) (Some ?stats)")
      from files_of_stored [OF process_content_files [OF pc] s1]
      obtain d2 where d2: "firestore w2 document_id = Some d2"
        by blast
      from run False True pc
      have "finish_processing w2 document_id chunks st = (r, w')"
        by (simp add: process_document_def process_document_start [OF stored] get_document_def
              Let_def)
      from finish_processing_settled [OF d2 this] show ?thesis
        by blast
    qed
  qed
  with run show ?thesis
    by simp
qed

lemma process_document_on_example:
  "map_option processingStatus (firestore (snd (process_document c1_env c1_world ''d1'')) ''d1'') =
     Some (Some ''completed'')
   \<and> map_option chunkCount (firestore (snd (process_document c1_env c1_world ''d1'')) ''d1'') =
     Some (Some 1)
   \<and> map_option vectorIds (firestore (snd (process_document c1_env c1_world ''d1'')) ''d1'') =
     Some (Some [''chunk-0''])"
  by (simp add: process_document_def process_file_def finish_processing_def cleanup_def
        get_document_def c1_world_def c1_document_def download_file_def c1_env_def
        process_content_def update_processing_status_def update_document_def
        extract_documents_def splitext_ext_def str_lower_def validate_extraction_def
        chunk_documents_def embed_nodes_def store_chunks_def make_chunk_def chunk_data_of_def
        QdrantDB_insert_embeddings_def c2_qdrant_def ok_qdrant_env_def
        set_step_time_def fail_step_def truthy_def str_nat.simps digit_char_def
        TEXT_EXTRACTION_def CHUNKING_def EMBEDDING_def STORAGE_def DOWNLOAD_def CLEANUP_def
        Let_def)

text \<open>
  Claim C1. On every completion path, the immediate entry point included, a document
  marked as completed has a positive chunk count and as many vector ids, and a document
  marked as failed has an error.

  \<^verbatim>\<open>process_document\<close> keeps this (\<open>process_document_keeps_invariant\<close>). On the same
  document, in an environment where every step of the pipeline succeeds,
  \<^verbatim>\<open>process_document_immediately\<close> returns \<^verbatim>\<open>True\<close> and leaves the document completed with
  a chunk count of 0 and no vector ids.
\<close>

theorem C1_immediate_processing_completes_without_chunks:
  "fst (process_document_immediately c1_env c1_world ''d1'' 3) = Inr True
   \<and> map_option processingStatus
       (firestore (snd (process_document_immediately c1_env c1_world ''d1'' 3)) ''d1'') =
       Some (Some ''completed'')
   \<and> map_option chunkCount
       (firestore (snd (process_document_immediately c1_env c1_world ''d1'' 3)) ''d1'') =
       Some (Some 0)
   \<and> map_option vectorIds
       (firestore (snd (process_document_immediately c1_env c1_world ''d1'' 3)) ''d1'') =
       Some None
   \<and> qdrant_points (vector_db (snd (process_document_immediately c1_env c1_world ''d1'' 3)))
       ''document_embeddings'' = Some []"
  by (simp add: process_document_immediately_def immediate_attempt_def immediate_try_def
        get_document_def c1_world_def c1_document_def missing_fields_def download_file_def
        c1_env_def process_content_def update_processing_status_def update_document_def
        extract_documents_def splitext_ext_def str_lower_def validate_extraction_def
        set_step_time_def fail_step_def unlink_quietly_def qdrant_points_def c2_qdrant_def
        Let_def upt_conv_Cons)

subsection \<open>Deletion\<close>

text \<open>
  When the vector database does not raise and the file can be deleted (or the document
  has no file), \<^verbatim>\<open>delete_document\<close> returns \<^verbatim>\<open>True\<close> and the record is gone.
\<close>

lemma delete_document_cascade:
  assumes "firestore w document_id = Some d"
    and "vdb_delete_by_document_id (vector_env env) (vector_db w) document_id = (Inr b, v)"
    and "\<not> truthy (storageUri d) \<or>
         (\<exists>uri. storageUri d = Some uri \<and> uri \<in> bucket w \<and> blob_delete_fails env uri = None)"
  shows "fst (delete_document env w document_id) = Inr True"
    and "firestore (snd (delete_document env w document_id)) document_id = None"
    and "vector_db (snd (delete_document env w document_id)) = v"
  using assms
  by (auto simp: delete_document_def get_document_def delete_file_def
        firestore_delete_document_def truthy_def Let_def)

text \<open>
  Claim C7. \<^verbatim>\<open>delete(document_id)\<close> deletes the vector rows, then the file, where a
  failure to delete the file is logged and does not stop the deletion, then the record,
  and returns a boolean.

  \<^verbatim>\<open>FirebaseStorage.delete_file\<close> has no handler and \<^verbatim>\<open>delete_document\<close> has none around
  it: for a document whose blob is no longer in the bucket the call raises after the
  vector rows are deleted, and the record stays.
\<close>

theorem C7_file_deletion_failure_aborts:
  "fst (delete_document c1_env c7_world ''d1'') =
     Inl ''404 No such object: documents/u1/d1/notes.txt''
   \<and> firestore (snd (delete_document c1_env c7_world ''d1'')) ''d1'' \<noteq> None
   \<and> qdrant_points (vector_db c7_world) ''document_embeddings'' = Some [c3_point]
   \<and> qdrant_points (vector_db (snd (delete_document c1_env c7_world ''d1'')))
       ''document_embeddings'' = Some []"
  by (simp add: delete_document_def get_document_def c7_world_def c1_document_def c1_env_def
        QdrantDB_delete_by_document_id_def c4_qdrant_def c3_server_def c3_point_def
        ok_qdrant_env_def truthy_def delete_file_def qdrant_points_def payload_get_def Let_def)

end
